theory Spec2Isabelle
  imports Main "HOL-Library.Sublist" "HOL-Library.AList"
begin

section \<open>Python values as the bridge and the client see them\<close>

text \<open>
  The exceptions the modelled code raises or meets. \<open>MysticalAPIError\<close> is the client's
  own class (a direct subclass of \<open>Exception\<close>, so \<open>except RequestException\<close> does
  not catch it); the others are Python's and the requests library's. Only subclasses of
  \<open>Exception\<close> are modelled: every \<open>except Exception\<close> of the source catches each of
  them.
\<close>

datatype exn =
    MysticalAPIError string
  | RequestException string
  | ValueError string
  | KeyError string
  | TypeError
  | AttributeError
  | OSError
  | JSONDecodeError

text \<open>
  A \<open>datetime\<close>: naive (microseconds on the local clock) or timezone-aware (the UTC
  instant in microseconds, and the offset). Python refuses to compare or subtract a naive
  and an aware one.
\<close>

datatype datetime = Naive int | Aware int int

text \<open>
  The dynamically typed values that travel through the bridge: what \<open>json.load\<close>
  returns, what callers pass as \<open>Dict[str, Any]\<close>, and the \<open>datetime\<close> objects that
  \<open>entry.dict()\<close> leaves in an export. A dict is an association list in insertion order
  with string keys. Floats and sets are left out. A string is a list of 8-bit
  characters, read as code points.
\<close>

datatype pyval =
    PNone
  | PBool bool
  | PInt int
  | PStr string
  | PDatetime datetime
  | PList "pyval list"
  | PDict "(string \<times> pyval) list"

text \<open>Truthiness, as \<open>if x:\<close> reads it.\<close>

fun py_truthy :: "pyval \<Rightarrow> bool" where
  "py_truthy PNone = False"
| "py_truthy (PBool b) = b"
| "py_truthy (PInt n) = (n \<noteq> 0)"
| "py_truthy (PStr s) = (s \<noteq> [])"
| "py_truthy (PDatetime t) = True"
| "py_truthy (PList xs) = (xs \<noteq> [])"
| "py_truthy (PDict kvs) = (kvs \<noteq> [])"

text \<open>\<open>key in x\<close> for a string \<open>key\<close>: a key of a dict, an element of a list, a
  substring of a string; a \<open>TypeError\<close> on anything else.\<close>

fun py_contains :: "string \<Rightarrow> pyval \<Rightarrow> exn + bool" where
  "py_contains k (PDict kvs) = Inr (k \<in> set (map fst kvs))"
| "py_contains k (PList xs) = Inr (PStr k \<in> set xs)"
| "py_contains k (PStr s) = Inr (sublist k s)"
| "py_contains k v = Inl TypeError"

text \<open>\<open>x[key]\<close> for a string \<open>key\<close>: only a dict can be indexed by a string.\<close>

fun py_getitem :: "pyval \<Rightarrow> string \<Rightarrow> exn + pyval" where
  "py_getitem (PDict kvs) k = (case map_of kvs k of Some v \<Rightarrow> Inr v | None \<Rightarrow> Inl (KeyError k))"
| "py_getitem v k = Inl TypeError"

text \<open>\<open>x.get(key, default)\<close>: only a dict has the method.\<close>

fun py_get :: "pyval \<Rightarrow> string \<Rightarrow> pyval \<Rightarrow> exn + pyval" where
  "py_get (PDict kvs) k d = (case map_of kvs k of Some v \<Rightarrow> Inr v | None \<Rightarrow> Inr d)"
| "py_get v k d = Inl AttributeError"

text \<open>\<open>for item in x\<close>: the elements of a list, the keys of a dict, the characters of
  a string; a \<open>TypeError\<close> on anything else.\<close>

fun py_iter :: "pyval \<Rightarrow> exn + pyval list" where
  "py_iter (PList xs) = Inr xs"
| "py_iter (PDict kvs) = Inr (map (\<lambda>kv. PStr (fst kv)) kvs)"
| "py_iter (PStr s) = Inr (map (\<lambda>c. PStr [c]) s)"
| "py_iter v = Inl TypeError"

text \<open>\<open>x[key] = value\<close> for a string \<open>key\<close>: a dict keeps the position of a key it
  already has and appends a new one; nothing else takes a string index.\<close>

fun py_setitem :: "pyval \<Rightarrow> string \<Rightarrow> pyval \<Rightarrow> exn + pyval" where
  "py_setitem (PDict kvs) k v = Inr (PDict (AList.update k v kvs))"
| "py_setitem c k v = Inl TypeError"

text \<open>\<open>x += 1\<close>: integers (and booleans, which are integers) add; the rest raise.\<close>

fun py_add1 :: "pyval \<Rightarrow> exn + pyval" where
  "py_add1 (PInt n) = Inr (PInt (n + 1))"
| "py_add1 (PBool b) = Inr (PInt ((if b then 1 else 0) + 1))"
| "py_add1 v = Inl TypeError"

text \<open>\<open>x.clear()\<close>: dicts and lists have the method.\<close>

fun py_clear :: "pyval \<Rightarrow> exn + pyval" where
  "py_clear (PDict kvs) = Inr (PDict [])"
| "py_clear (PList xs) = Inr (PList [])"
| "py_clear v = Inl AttributeError"

text \<open>\<open>list(x.keys())\<close>.\<close>

fun py_keys :: "pyval \<Rightarrow> exn + pyval" where
  "py_keys (PDict kvs) = Inr (PList (map (\<lambda>kv. PStr (fst kv)) kvs))"
| "py_keys v = Inl AttributeError"

text \<open>\<open>str(n)\<close> for an integer: its decimal digits.\<close>

fun str_nat :: "nat \<Rightarrow> string" where
  "str_nat n = (if n < 10 then [''0123456789'' ! n]
                else str_nat (n div 10) @ [''0123456789'' ! (n mod 10)])"

definition str_int :: "int \<Rightarrow> string" where
  "str_int i = (if i < 0 then ''-'' @ str_nat (nat (- i)) else str_nat (nat i))"

text \<open>\<open>str(v)\<close> as an f-string formats it: a string is itself, an integer its digits;
  for the other values Python's own rendering is the parameter \<open>fmt\<close>.\<close>

fun py_str :: "(pyval \<Rightarrow> string) \<Rightarrow> pyval \<Rightarrow> string" where
  "py_str fmt (PStr s) = s"
| "py_str fmt (PInt n) = str_int n"
| "py_str fmt v = fmt v"

section \<open>The API client: \<open>MysticalAPIClient._make_request\<close>\<close>

text \<open>
  A response as the client reads it: the status code and what \<open>response.json()\<close> gives
  (\<open>None\<close> when the body is not JSON and the call raises).
\<close>

record response =
  status_code :: int
  json_body :: "pyval option"

text \<open>What one \<open>session.request\<close> call does: it returns a response, or raises a
  \<open>RequestException\<close> (connection error, timeout) whose text is \<open>str(e)\<close>.\<close>

datatype net_outcome = Responds response | Fails string

record python_config =
  max_retries :: int
  mystical_theme :: bool

text \<open>The two pictographs of the themed messages, spelled as their UTF-8 bytes.\<close>

definition moon :: string where
  "moon = [CHR 0xF0, CHR 0x9F, CHR 0x8C, CHR 0x99]"

definition bolt :: string where
  "bolt = [CHR 0xE2, CHR 0x9A, CHR 0xA1]"

text \<open>The text of the error raised for a response with status 400 or more: the status
  code, and the \<open>message\<close> of a JSON body when there is a truthy one. Reading the body is
  under a bare \<open>except: pass\<close>, so a body that is not JSON, or JSON that is not an
  object, adds nothing.\<close>

definition error_detail :: "response \<Rightarrow> pyval option" where
  "error_detail r =
     (case json_body r of
        None \<Rightarrow> None
      | Some j \<Rightarrow> (case py_get j ''message'' (PStr '''') of
                    Inl e \<Rightarrow> None
                  | Inr d \<Rightarrow> if py_truthy d then Some d else None))"

definition status_error_msg :: "(pyval \<Rightarrow> string) \<Rightarrow> python_config \<Rightarrow> response \<Rightarrow> string" where
  "status_error_msg fmt cfg r =
     (if mystical_theme cfg
      then moon @ '' The cosmic energies have disrupted the connection (Status: ''
             @ str_int (status_code r) @ '')''
      else ''API request failed with status '' @ str_int (status_code r))
     @ (case error_detail r of None \<Rightarrow> [] | Some d \<Rightarrow> '' - '' @ py_str fmt d)"

definition transport_error_msg :: "python_config \<Rightarrow> string \<Rightarrow> string" where
  "transport_error_msg cfg e =
     (if mystical_theme cfg then bolt @ '' The ethereal channels are blocked: '' @ e
      else ''Request failed: '' @ e)"

text \<open>What a call of \<open>_make_request\<close> leaves behind: what it returned or raised
  (\<open>Inr None\<close>: the loop ran out without either, and Python returns \<open>None\<close>), the attempt
  numbers for which a request was sent, and the seconds passed to \<open>time.sleep\<close>, in
  order.\<close>

record request_run =
  outcome :: "exn + response option"
  requests :: "nat list"
  sleeps :: "nat list"

text \<open>The body of \<open>for attempt in range(max_retries + 1)\<close>. \<open>session\<close> answers the
  request of each attempt.\<close>

fun make_request_loop ::
  "(pyval \<Rightarrow> string) \<Rightarrow> python_config \<Rightarrow> (nat \<Rightarrow> net_outcome) \<Rightarrow> nat list
     \<Rightarrow> nat list \<Rightarrow> nat list \<Rightarrow> request_run" where
  "make_request_loop fmt cfg session [] sent slept =
     \<lparr>outcome = Inr None, requests = sent, sleeps = slept\<rparr>"
| "make_request_loop fmt cfg session (attempt # rest) sent slept =
     (case session attempt of
        Responds r \<Rightarrow>
          if status_code r \<ge> 400
          then \<lparr>outcome = Inl (MysticalAPIError (status_error_msg fmt cfg r)),
                requests = sent @ [attempt], sleeps = slept\<rparr>
          else \<lparr>outcome = Inr (Some r), requests = sent @ [attempt], sleeps = slept\<rparr>
      | Fails e \<Rightarrow>
          if int attempt = max_retries cfg
          then \<lparr>outcome = Inl (MysticalAPIError (transport_error_msg cfg e)),
                requests = sent @ [attempt], sleeps = slept\<rparr>
          else make_request_loop fmt cfg session rest (sent @ [attempt])
                 (slept @ [2 ^ attempt]))"

definition make_request ::
  "(pyval \<Rightarrow> string) \<Rightarrow> python_config \<Rightarrow> (nat \<Rightarrow> net_outcome) \<Rightarrow> request_run" where
  "make_request fmt cfg session =
     make_request_loop fmt cfg session [0..<nat (max_retries cfg + 1)] [] []"

section \<open>The bridge: \<open>integration_bridge.py\<close>\<close>

subsection \<open>Entries and collections, as the client hands them to the bridge\<close>

text \<open>
  The pydantic models of \<open>models.py\<close>, with the fields the bridge reads. An
  \<open>Optional\<close> field is an \<open>option\<close>. Field names that clash (\<open>id\<close>, \<open>type\<close>,
  \<open>size\<close>, and \<open>notes\<close>, \<open>createdAt\<close>, \<open>updatedAt\<close> of the collection) carry a
  prefix.
\<close>

record Bookmark =
  bookmark_id :: string
  entryId :: string
  isBookmarked :: bool
  personalNotes :: "string option"
  createdAt :: datetime
  updatedAt :: datetime

text \<open>
  \<open>CollectionWithEntries.entries\<close> is declared as a list of \<open>CodexEntry\<close>, which has
  no \<open>bookmark\<close> attribute; the bridge reads \<open>entry.bookmark\<close> as if the entries were
  \<open>CodexEntryWithBookmark\<close>. Both are covered: \<open>NoAttr\<close> is an entry without the
  attribute, on which \<open>entry.bookmark\<close> raises \<open>AttributeError\<close>.
\<close>

datatype 'a attr = NoAttr | Attr 'a

record CodexEntry =
  entry_id :: string
  filename :: string
  entry_type :: string
  entry_size :: int
  originalSize :: "int option"
  processedDate :: "datetime option"
  summary :: string
  keyChunks :: "string list option"
  fullText :: "string option"
  category :: string
  subcategory :: "string option"
  keyTerms :: "string list option"
  bookmark :: "Bookmark option attr"

record Collection =
  collection_id :: string
  title :: string
  entryIds :: "string list"
  collection_notes :: "string option"
  isPublic :: bool
  collection_createdAt :: datetime
  collection_updatedAt :: datetime
  entries :: "CodexEntry list"

subsection \<open>Messages, effects and the state of the bridge\<close>

record BridgeMessage =
  msg_type :: string
  timestamp :: datetime
  source :: string
  payload :: pyval
  message_id :: string

record SyncState =
  last_sync :: datetime
  react_version :: pyval
  python_version :: pyval
  pending_changes :: pyval
  conflict_resolution :: string

text \<open>The calls the bridge makes on its API client.\<close>

datatype remote_call =
    Get_collections
  | Create_annotation pyval pyval pyval
  | Create_bookmark pyval pyval pyval
  | Create_collection pyval pyval pyval pyval

text \<open>The lines the bridge writes to its logger, by the place that writes them (the
  formatted text is left out).\<close>

datatype log_entry =
    Info_state_loaded
  | Warning_could_not_load exn
  | Debug_state_saved
  | Error_could_not_save exn
  | Error_event_handler exn
  | Error_export_failed exn
  | Warning_skipping_annotation pyval
  | Info_imported nat
  | Error_import_failed exn
  | Error_sync_failed exn
  | Error_change_detection exn
  | Info_cache_cleared
  | Info_force_sync_completed
  | Error_force_sync_failed exn

text \<open>
  What the bridge does that can be seen from outside, in the order it does it: a call on
  the client (with the exception it raised, if any), a message put on the queue, a handler
  called (its position in the list it was registered in, the message, the exception it
  raised, if any), a line logged.
\<close>

datatype effect =
    Remote remote_call "exn option"
  | Queued BridgeMessage
  | Handled nat BridgeMessage "exn option"
  | Logged log_entry

text \<open>The file at \<open>shared_state_path\<close>: absent, present but failing to open or to
  decode as JSON (with the exception), or holding a JSON document.\<close>

datatype state_file = Absent | Unreadable exn | Document pyval

text \<open>
  An event handler is a callable of the caller's: it gets the message, acts on the world
  outside the bridge (\<open>'w\<close>) and may raise.
\<close>

type_synonym 'w handler = "BridgeMessage \<Rightarrow> 'w \<Rightarrow> exn option \<times> 'w"

text \<open>
  A \<open>MysticalBridge\<close> object (\<open>sync_state\<close>, \<open>message_queue\<close>, \<open>event_handlers\<close>,
  \<open>local_cache\<close> and the three \<open>BridgeConfig\<close> fields it reads), and around it: the file
  at \<open>shared_state_path\<close>, whether that file can be opened for writing, the effects so
  far, and the world outside (the clock, the remote store, whatever the handlers act on).
\<close>

record 'w MysticalBridge =
  sync_state :: SyncState
  message_queue :: "BridgeMessage list"
  event_handlers :: "(string \<times> 'w handler list) list"
  local_cache :: pyval
  auto_sync :: bool
  bidirectional :: bool
  sync_interval :: int
  shared_state :: state_file
  file_writable :: bool
  trace :: "effect list"
  world :: 'w

text \<open>
  What the bridge calls and does not define: the clock (\<open>datetime.now()\<close>, a naive
  datetime in microseconds; \<open>int(time.time() * 1000)\<close>), the text forms of a datetime
  (\<open>isoformat()\<close>, \<open>str()\<close>, and \<open>fromisoformat\<close>, which is \<open>None\<close> where Python
  raises \<open>ValueError\<close>), the order in which \<open>list(a_set)\<close> lists a set, and the four
  methods of the API client the bridge uses. \<open>create_annotation\<close> returns the
  \<open>id\<close> of the annotation created.
\<close>

record 'w env =
  now :: "'w \<Rightarrow> int \<times> 'w"
  time_ms :: "'w \<Rightarrow> int \<times> 'w"
  isoformat :: "datetime \<Rightarrow> string"
  str_datetime :: "datetime \<Rightarrow> string"
  fromisoformat :: "string \<Rightarrow> datetime option"
  list_of_set :: "string list \<Rightarrow> string list"
  get_collections :: "'w \<Rightarrow> (exn + Collection list) \<times> 'w"
  create_annotation :: "pyval \<Rightarrow> pyval \<Rightarrow> pyval \<Rightarrow> 'w \<Rightarrow> (exn + string) \<times> 'w"
  create_bookmark :: "pyval \<Rightarrow> pyval \<Rightarrow> pyval \<Rightarrow> 'w \<Rightarrow> exn option \<times> 'w"
  create_collection :: "pyval \<Rightarrow> pyval \<Rightarrow> pyval \<Rightarrow> pyval \<Rightarrow> 'w \<Rightarrow> exn option \<times> 'w"

definition log :: "log_entry \<Rightarrow> 'w MysticalBridge \<Rightarrow> 'w MysticalBridge" where
  "log l b = b\<lparr>trace := trace b @ [Logged l]\<rparr>"

definition datetime_now :: "'w env \<Rightarrow> 'w MysticalBridge \<Rightarrow> datetime \<times> 'w MysticalBridge" where
  "datetime_now env b = (case now env (world b) of (t, w) \<Rightarrow> (Naive t, b\<lparr>world := w\<rparr>))"

text \<open>\<open>exn_of r\<close>: the exception of a result, if it is one.\<close>

fun exn_of :: "exn + 'a \<Rightarrow> exn option" where
  "exn_of (Inl e) = Some e"
| "exn_of (Inr x) = None"

subsection \<open>The shared state file: \<open>_save_shared_state\<close>, \<open>_load_shared_state\<close>\<close>

text \<open>
  What \<open>json.load\<close> reads back from what \<open>json.dump(..., default=str)\<close> wrote: a
  \<open>datetime\<close> object has become the string \<open>str()\<close> gives; everything else is itself.
\<close>

primrec json_dump_load :: "'w env \<Rightarrow> pyval \<Rightarrow> pyval" where
  "json_dump_load env PNone = PNone"
| "json_dump_load env (PBool b) = PBool b"
| "json_dump_load env (PInt n) = PInt n"
| "json_dump_load env (PStr s) = PStr s"
| "json_dump_load env (PDatetime t) = PStr (str_datetime env t)"
| "json_dump_load env (PList xs) = PList (map (json_dump_load env) xs)"
| "json_dump_load env (PDict kvs) = PDict (map (map_prod id (json_dump_load env)) kvs)"

definition save_shared_state ::
  "'w env \<Rightarrow> 'w MysticalBridge \<Rightarrow> (exn + unit) \<times> 'w MysticalBridge" where
  "save_shared_state env b =
     (case datetime_now env b of (t, b1) \<Rightarrow>
        let state_data = PDict
              [(''sync_state'', PDict
                  [(''last_sync'', PStr (isoformat env (last_sync (sync_state b1)))),
                   (''react_version'', react_version (sync_state b1)),
                   (''python_version'', python_version (sync_state b1)),
                   (''pending_changes'', pending_changes (sync_state b1)),
                   (''conflict_resolution'', PStr (conflict_resolution (sync_state b1)))]),
               (''local_cache'', local_cache b1),
               (''metadata'', PDict
                  [(''bridge_version'', PStr ''1.0''),
                   (''last_updated'', PStr (isoformat env t)),
                   (''auto_sync'', PBool (auto_sync b1)),
                   (''bidirectional'', PBool (bidirectional b1))])]
        in if file_writable b1
           then (Inr (), log Debug_state_saved
                   (b1\<lparr>shared_state := Document (json_dump_load env state_data)\<rparr>))
           else (Inr (), log (Error_could_not_save OSError) b1))"

text \<open>\<open>datetime.fromisoformat(x)\<close>: a \<open>TypeError\<close> unless \<open>x\<close> is a string.\<close>

fun py_fromisoformat :: "'w env \<Rightarrow> pyval \<Rightarrow> exn + datetime" where
  "py_fromisoformat env (PStr s) =
     (case fromisoformat env s of None \<Rightarrow> Inl (ValueError s) | Some t \<Rightarrow> Inr t)"
| "py_fromisoformat env v = Inl TypeError"

text \<open>The block under \<open>if 'sync_state' in state_data\<close>: four assignments, one after
  the other.\<close>

definition load_sync_state ::
  "'w env \<Rightarrow> pyval \<Rightarrow> 'w MysticalBridge \<Rightarrow> (exn + unit) \<times> 'w MysticalBridge" where
  "load_sync_state env state_data b =
     (case py_getitem state_data ''sync_state'' of
        Inl e \<Rightarrow> (Inl e, b)
      | Inr sync_data \<Rightarrow>
     (case py_getitem sync_data ''last_sync'' of
        Inl e \<Rightarrow> (Inl e, b)
      | Inr ls \<Rightarrow>
     (case py_fromisoformat env ls of
        Inl e \<Rightarrow> (Inl e, b)
      | Inr t \<Rightarrow>
     (let b1 = b\<lparr>sync_state := (sync_state b)\<lparr>last_sync := t\<rparr>\<rparr> in
      case py_get sync_data ''react_version'' (PInt 0) of
        Inl e \<Rightarrow> (Inl e, b1)
      | Inr rv \<Rightarrow>
     (let b2 = b1\<lparr>sync_state := (sync_state b1)\<lparr>react_version := rv\<rparr>\<rparr> in
      case py_get sync_data ''python_version'' (PInt 0) of
        Inl e \<Rightarrow> (Inl e, b2)
      | Inr pv \<Rightarrow>
     (let b3 = b2\<lparr>sync_state := (sync_state b2)\<lparr>python_version := pv\<rparr>\<rparr> in
      case py_get sync_data ''pending_changes'' (PList []) of
        Inl e \<Rightarrow> (Inl e, b3)
      | Inr pc \<Rightarrow>
          (Inr (), b3\<lparr>sync_state := (sync_state b3)\<lparr>pending_changes := pc\<rparr>\<rparr>)))))))"

text \<open>What runs once the file has been read: the body of the \<open>try\<close> after
  \<open>json.load\<close>.\<close>

definition load_state_data ::
  "'w env \<Rightarrow> pyval \<Rightarrow> 'w MysticalBridge \<Rightarrow> (exn + unit) \<times> 'w MysticalBridge" where
  "load_state_data env state_data b =
     (case py_contains ''sync_state'' state_data of
        Inl e \<Rightarrow> (Inl e, b)
      | Inr has \<Rightarrow>
     (case (if has then load_sync_state env state_data b else (Inr (), b)) of
        (Inl e, b1) \<Rightarrow> (Inl e, b1)
      | (Inr u, b1) \<Rightarrow>
     (case py_get state_data ''local_cache'' (PDict []) of
        Inl e \<Rightarrow> (Inl e, b1)
      | Inr c \<Rightarrow> (Inr (), log Info_state_loaded (b1\<lparr>local_cache := c\<rparr>)))))"

definition load_shared_state ::
  "'w env \<Rightarrow> 'w MysticalBridge \<Rightarrow> (exn + unit) \<times> 'w MysticalBridge" where
  "load_shared_state env b =
     (case shared_state b of
        Absent \<Rightarrow> (Inr (), b)
      | Unreadable e \<Rightarrow> (Inr (), log (Warning_could_not_load e) b)
      | Document state_data \<Rightarrow>
          (case load_state_data env state_data b of
             (Inl e, b1) \<Rightarrow> (Inr (), log (Warning_could_not_load e) b1)
           | (Inr u, b1) \<Rightarrow> (Inr (), b1)))"

text \<open>
  \<open>MysticalBridge.__init__\<close>: a fresh \<open>SyncState(last_sync=datetime.now())\<close>, an empty
  queue, no handlers, an empty cache, and then \<open>_load_shared_state\<close>. The arguments are
  the three configuration fields and what is around the object.
\<close>

definition default_sync_state :: "datetime \<Rightarrow> SyncState" where
  "default_sync_state t =
     \<lparr>last_sync = t, react_version = PInt 0, python_version = PInt 0,
      pending_changes = PList [], conflict_resolution = ''manual''\<rparr>"

definition new_bridge ::
  "'w env \<Rightarrow> bool \<Rightarrow> bool \<Rightarrow> int \<Rightarrow> state_file \<Rightarrow> bool \<Rightarrow> 'w
     \<Rightarrow> (exn + unit) \<times> 'w MysticalBridge" where
  "new_bridge env auto bidir interval file writable w =
     (case now env w of (t, w1) \<Rightarrow>
        load_shared_state env
          \<lparr>sync_state = default_sync_state (Naive t), message_queue = [],
           event_handlers = [], local_cache = PDict [],
           auto_sync = auto, bidirectional = bidir, sync_interval = interval,
           shared_state = file, file_writable = writable, trace = [], world = w1\<rparr>)"

subsection \<open>The event bus: \<open>register_event_handler\<close>, \<open>emit_event\<close>\<close>

definition handlers_for :: "'w MysticalBridge \<Rightarrow> string \<Rightarrow> 'w handler list" where
  "handlers_for b event_type =
     (case map_of (event_handlers b) event_type of None \<Rightarrow> [] | Some hs \<Rightarrow> hs)"

definition register_event_handler ::
  "string \<Rightarrow> 'w handler \<Rightarrow> 'w MysticalBridge \<Rightarrow> 'w MysticalBridge" where
  "register_event_handler event_type h b =
     b\<lparr>event_handlers :=
         AList.update event_type (handlers_for b event_type @ [h]) (event_handlers b)\<rparr>"

text \<open>The loop over the handlers of one type; \<open>i\<close> is the position of the next one.
  An exception of a handler is logged and the loop goes on.\<close>

fun call_handlers ::
  "BridgeMessage \<Rightarrow> 'w handler list \<Rightarrow> nat \<Rightarrow> 'w MysticalBridge \<Rightarrow> 'w MysticalBridge" where
  "call_handlers m [] i b = b"
| "call_handlers m (h # hs) i b =
     (case h m (world b) of (r, w) \<Rightarrow>
        let b1 = b\<lparr>world := w, trace := trace b @ [Handled i m r]\<rparr>;
            b2 = (case r of None \<Rightarrow> b1 | Some e \<Rightarrow> log (Error_event_handler e) b1)
        in call_handlers m hs (Suc i) b2)"

text \<open>The message \<open>emit_event\<close> builds: the timestamp is \<open>datetime.now()\<close>, and
  \<open>__post_init__\<close> derives the id from \<open>time.time()\<close>.\<close>

definition new_message ::
  "'w env \<Rightarrow> string \<Rightarrow> pyval \<Rightarrow> 'w MysticalBridge \<Rightarrow> BridgeMessage \<times> 'w MysticalBridge" where
  "new_message env event_type pl b =
     (case datetime_now env b of (t, b1) \<Rightarrow>
      case time_ms env (world b1) of (ms, w) \<Rightarrow>
        (\<lparr>msg_type = event_type, timestamp = t, source = ''python'', payload = pl,
          message_id = ''python'' @ ''_'' @ str_int ms\<rparr>,
         b1\<lparr>world := w\<rparr>))"

definition emit_event ::
  "'w env \<Rightarrow> string \<Rightarrow> pyval \<Rightarrow> 'w MysticalBridge \<Rightarrow> 'w MysticalBridge" where
  "emit_event env event_type pl b =
     (case new_message env event_type pl b of (m, b1) \<Rightarrow>
        let b2 = b1\<lparr>message_queue := message_queue b1 @ [m],
                    trace := trace b1 @ [Queued m]\<rparr>
        in case map_of (event_handlers b2) event_type of
             None \<Rightarrow> b2
           | Some hs \<Rightarrow> call_handlers m hs 0 b2)"

subsection \<open>\<open>export_collection_for_python\<close>\<close>

text \<open>\<open>len(text.split())\<close>: \<open>split()\<close> cuts at runs of whitespace (the characters
  below 256 for which \<open>str.isspace\<close> holds) and drops empty pieces. \<open>cur\<close> is the
  piece being read.\<close>

definition is_space :: "char \<Rightarrow> bool" where
  "is_space c = (of_char c \<in> {9, 10, 11, 12, 13, 28, 29, 30, 31, 32, 133, 160 :: nat})"

fun py_split :: "string \<Rightarrow> string \<Rightarrow> string list" where
  "py_split cur [] = (if cur = [] then [] else [cur])"
| "py_split cur (c # cs) =
     (if is_space c then (if cur = [] then py_split [] cs else cur # py_split [] cs)
      else py_split (cur @ [c]) cs)"

fun py_opt :: "('a \<Rightarrow> pyval) \<Rightarrow> 'a option \<Rightarrow> pyval" where
  "py_opt f None = PNone"
| "py_opt f (Some x) = f x"

text \<open>\<open>model.dict()\<close>: the fields by name, nested models as dicts, datetimes as they
  are.\<close>

definition bookmark_dict :: "Bookmark \<Rightarrow> pyval" where
  "bookmark_dict bm = PDict
     [(''id'', PStr (bookmark_id bm)),
      (''entryId'', PStr (entryId bm)),
      (''isBookmarked'', PBool (isBookmarked bm)),
      (''personalNotes'', py_opt PStr (personalNotes bm)),
      (''createdAt'', PDatetime (createdAt bm)),
      (''updatedAt'', PDatetime (updatedAt bm))]"

definition entry_dict :: "CodexEntry \<Rightarrow> (string \<times> pyval) list" where
  "entry_dict e =
     [(''id'', PStr (entry_id e)),
      (''filename'', PStr (filename e)),
      (''type'', PStr (entry_type e)),
      (''size'', PInt (entry_size e)),
      (''originalSize'', py_opt PInt (originalSize e)),
      (''processedDate'', py_opt PDatetime (processedDate e)),
      (''summary'', PStr (summary e)),
      (''keyChunks'', py_opt (\<lambda>xs. PList (map PStr xs)) (keyChunks e)),
      (''fullText'', py_opt PStr (fullText e)),
      (''category'', PStr (category e)),
      (''subcategory'', py_opt PStr (subcategory e)),
      (''keyTerms'', py_opt (\<lambda>xs. PList (map PStr xs)) (keyTerms e))]
     @ (case bookmark e of NoAttr \<Rightarrow> []
        | Attr bm \<Rightarrow> [(''bookmark'', py_opt bookmark_dict bm)])"

text \<open>The local variables of the loop over the entries: the exported entries so far,
  \<open>total_size\<close>, \<open>categories\<close>, \<open>all_key_terms\<close> (a set: a list without repetitions)
  and \<open>dates\<close>.\<close>

record export_vars =
  exported :: "pyval list"
  total_size :: int
  categories :: "(string \<times> int) list"
  all_key_terms :: "string list"
  dates :: "datetime option list"

text \<open>One round of the loop. \<open>entry.fullText.split()\<close> raises when \<open>fullText\<close> is
  \<open>None\<close>, \<open>entry.bookmark\<close> when the entry has no such attribute.\<close>

definition export_entry :: "CodexEntry \<Rightarrow> export_vars \<Rightarrow> exn + export_vars" where
  "export_entry e v =
     (case fullText e of
        None \<Rightarrow> Inl AttributeError
      | Some text \<Rightarrow>
     (case bookmark e of
        NoAttr \<Rightarrow> Inl AttributeError
      | Attr bm \<Rightarrow>
          let python_metadata = PDict
                [(''word_count'', PInt (int (length (py_split [] text)))),
                 (''char_count'', PInt (int (length text))),
                 (''summary_length'', PInt (int (length (summary e)))),
                 (''has_bookmark'', PBool (bm \<noteq> None)),
                 (''bookmark_notes'',
                    (case bm of None \<Rightarrow> PNone | Some k \<Rightarrow> py_opt PStr (personalNotes k)))];
              d = AList.update ''python_metadata'' python_metadata (entry_dict e)
          in Inr \<lparr>exported = exported v @ [PDict d],
                  total_size = total_size v + entry_size e,
                  categories = AList.update (category e)
                    ((case map_of (categories v) (category e) of None \<Rightarrow> 0 | Some n \<Rightarrow> n) + 1)
                    (categories v),
                  all_key_terms =
                    (case keyTerms e of
                       None \<Rightarrow> all_key_terms v
                     | Some ts \<Rightarrow> if ts = [] then all_key_terms v
                                 else List.union (all_key_terms v) ts),
                  dates = dates v @ [processedDate e]\<rparr>))"

fun export_loop :: "CodexEntry list \<Rightarrow> export_vars \<Rightarrow> exn + export_vars" where
  "export_loop [] v = Inr v"
| "export_loop (e # es) v =
     (case export_entry e v of Inl x \<Rightarrow> Inl x | Inr v1 \<Rightarrow> export_loop es v1)"

text \<open>\<open>a < b\<close> on what \<open>dates\<close> holds: \<open>None\<close> does not compare, and neither do a
  naive and an aware datetime.\<close>

fun date_less :: "datetime option \<Rightarrow> datetime option \<Rightarrow> exn + bool" where
  "date_less (Some (Naive a)) (Some (Naive b)) = Inr (a < b)"
| "date_less (Some (Aware a oa)) (Some (Aware b ob)) = Inr (a < b)"
| "date_less x y = Inl TypeError"

text \<open>\<open>min(dates)\<close> and \<open>max(dates)\<close>: the first element, replaced by each later one
  that is smaller (larger).\<close>

fun min_loop :: "datetime option \<Rightarrow> datetime option list \<Rightarrow> exn + datetime option" where
  "min_loop m [] = Inr m"
| "min_loop m (x # xs) =
     (case date_less x m of Inl e \<Rightarrow> Inl e | Inr lt \<Rightarrow> min_loop (if lt then x else m) xs)"

fun max_loop :: "datetime option \<Rightarrow> datetime option list \<Rightarrow> exn + datetime option" where
  "max_loop m [] = Inr m"
| "max_loop m (x # xs) =
     (case date_less m x of Inl e \<Rightarrow> Inl e | Inr gt \<Rightarrow> max_loop (if gt then x else m) xs)"

text \<open>The \<open>date_range\<close> of the metadata: \<open>None\<close>s when there are no dates; else
  \<open>min(dates).isoformat()\<close> and \<open>max(dates).isoformat()\<close>, which raise on \<open>None\<close>.\<close>

definition date_range :: "'w env \<Rightarrow> datetime option list \<Rightarrow> exn + pyval" where
  "date_range env ds =
     (case ds of
        [] \<Rightarrow> Inr (PDict [(''earliest'', PNone), (''latest'', PNone)])
      | d # rest \<Rightarrow>
     (case min_loop d rest of
        Inl e \<Rightarrow> Inl e
      | Inr None \<Rightarrow> Inl AttributeError
      | Inr (Some lo) \<Rightarrow>
     (case max_loop d rest of
        Inl e \<Rightarrow> Inl e
      | Inr None \<Rightarrow> Inl AttributeError
      | Inr (Some hi) \<Rightarrow>
          Inr (PDict [(''earliest'', PStr (isoformat env lo)),
                      (''latest'', PStr (isoformat env hi))]))))"

definition export_data_of ::
  "'w env \<Rightarrow> Collection \<Rightarrow> datetime \<Rightarrow> export_vars \<Rightarrow> pyval \<Rightarrow> pyval" where
  "export_data_of env c t v dr = PDict
     [(''collection_info'', PDict
         [(''id'', PStr (collection_id c)),
          (''title'', PStr (title c)),
          (''notes'', py_opt PStr (collection_notes c)),
          (''entry_count'', PInt (int (length (entries c)))),
          (''exported_at'', PStr (isoformat env t)),
          (''export_source'', PStr ''mystical_bridge'')]),
      (''entries'', PList (exported v)),
      (''metadata'', PDict
         [(''total_size'', PInt (total_size v)),
          (''categories'', PDict (map (map_prod id PInt) (categories v))),
          (''key_terms'', PList (map PStr (list_of_set env (all_key_terms v)))),
          (''date_range'', dr)])]"

text \<open>\<open>t + timedelta(hours=1)\<close>, in microseconds.\<close>

fun plus_hours :: "datetime \<Rightarrow> int \<Rightarrow> datetime" where
  "plus_hours (Naive t) h = Naive (t + h * 3600000000)"
| "plus_hours (Aware t off) h = Aware (t + h * 3600000000) off"

text \<open>\<open># Cache the export\<close>: the two timestamps are two calls of \<open>datetime.now()\<close>.\<close>

definition cache_export ::
  "'w env \<Rightarrow> string \<Rightarrow> pyval \<Rightarrow> 'w MysticalBridge \<Rightarrow> (exn + unit) \<times> 'w MysticalBridge" where
  "cache_export env cid export_data b =
     (case datetime_now env b of (t1, b1) \<Rightarrow>
      case datetime_now env b1 of (t2, b2) \<Rightarrow>
        let cache_key = ''collection_export_'' @ cid;
            cached = PDict
              [(''data'', export_data),
               (''exported_at'', PStr (isoformat env t1)),
               (''expires_at'', PStr (isoformat env (plus_hours t2 1)))]
        in case py_setitem (local_cache b2) cache_key cached of
             Inl e \<Rightarrow> (Inl e, b2)
           | Inr c \<Rightarrow> (Inr (), b2\<lparr>local_cache := c\<rparr>))"

text \<open>The body of the \<open>try\<close>.\<close>

definition export_collection_body ::
  "'w env \<Rightarrow> string \<Rightarrow> 'w MysticalBridge \<Rightarrow> (exn + pyval) \<times> 'w MysticalBridge" where
  "export_collection_body env cid b =
     (case get_collections env (world b) of (r, w) \<Rightarrow>
        let b1 = b\<lparr>world := w, trace := trace b @ [Remote Get_collections (exn_of r)]\<rparr> in
     (case r of
        Inl e \<Rightarrow> (Inl e, b1)
      | Inr collections \<Rightarrow>
     (case find (\<lambda>c. collection_id c = cid) collections of
        None \<Rightarrow> (Inl (ValueError (''Collection '' @ cid @ '' not found'')), b1)
      | Some target \<Rightarrow>
     (case datetime_now env b1 of (t, b2) \<Rightarrow>
     (case export_loop (entries target)
             \<lparr>exported = [], total_size = 0, categories = [], all_key_terms = [],
              dates = []\<rparr> of
        Inl e \<Rightarrow> (Inl e, b2)
      | Inr v \<Rightarrow>
     (case date_range env (dates v) of
        Inl e \<Rightarrow> (Inl e, b2)
      | Inr dr \<Rightarrow>
     (let export_data = export_data_of env target t v dr in
      case cache_export env cid export_data b2 of
        (Inl e, b3) \<Rightarrow> (Inl e, b3)
      | (Inr u, b3) \<Rightarrow>
          (Inr export_data,
           emit_event env ''collection_exported''
             (PDict [(''collection_id'', PStr cid),
                     (''entry_count'', PInt (int (length (exported v)))),
                     (''total_size'', PInt (total_size v))])
             b3))))))))"

text \<open>\<open>except Exception as e: log; raise\<close>.\<close>

definition export_collection_for_python ::
  "'w env \<Rightarrow> string \<Rightarrow> 'w MysticalBridge \<Rightarrow> (exn + pyval) \<times> 'w MysticalBridge" where
  "export_collection_for_python env cid b =
     (case export_collection_body env cid b of
        (Inl e, b1) \<Rightarrow> (Inl e, log (Error_export_failed e) b1)
      | (Inr d, b1) \<Rightarrow> (Inr d, b1))"

subsection \<open>\<open>import_python_annotations\<close>\<close>

text \<open>\<open>all(key in x for key in keys)\<close>: it stops at the first key that is missing, and
  at the first test that raises.\<close>

fun has_all_keys :: "string list \<Rightarrow> pyval \<Rightarrow> exn + bool" where
  "has_all_keys [] x = Inr True"
| "has_all_keys (k # ks) x =
     (case py_contains k x of
        Inl e \<Rightarrow> Inl e
      | Inr present \<Rightarrow> if present then has_all_keys ks x else Inr False)"

text \<open>
  The loop over the batch, with \<open>imported_ids\<close> as it grows. It ends with the exception
  that left it, if one did: from the validation, from reading the fields, or from
  \<open>create_annotation\<close>.
\<close>

fun import_loop ::
  "'w env \<Rightarrow> pyval list \<Rightarrow> string list \<Rightarrow> 'w MysticalBridge
     \<Rightarrow> exn option \<times> string list \<times> 'w MysticalBridge" where
  "import_loop env [] ids b = (None, ids, b)"
| "import_loop env (annotation_data # rest) ids b =
     (case has_all_keys [''entryId'', ''content'', ''authorName''] annotation_data of
        Inl e \<Rightarrow> (Some e, ids, b)
      | Inr valid \<Rightarrow>
          if \<not> valid
          then import_loop env rest ids (log (Warning_skipping_annotation annotation_data) b)
          else
     (case py_getitem annotation_data ''entryId'' of
        Inl e \<Rightarrow> (Some e, ids, b)
      | Inr entry \<Rightarrow>
     (case py_getitem annotation_data ''content'' of
        Inl e \<Rightarrow> (Some e, ids, b)
      | Inr content \<Rightarrow>
     (case py_get annotation_data ''authorName'' (PStr ''Python Bridge'') of
        Inl e \<Rightarrow> (Some e, ids, b)
      | Inr author \<Rightarrow>
     (case create_annotation env entry content author (world b) of (r, w) \<Rightarrow>
        let b1 = b\<lparr>world := w,
                   trace := trace b @ [Remote (Create_annotation entry content author) (exn_of r)]\<rparr>
        in case r of
             Inl e \<Rightarrow> (Some e, ids, b1)
           | Inr new_id \<Rightarrow> import_loop env rest (ids @ [new_id]) b1)))))"

text \<open>The whole method: the \<open>try\<close> encloses the loop, the event and the log line;
  the \<open>except\<close> logs and returns \<open>imported_ids\<close> as it stands.\<close>

definition import_python_annotations ::
  "'w env \<Rightarrow> pyval \<Rightarrow> 'w MysticalBridge \<Rightarrow> (exn + string list) \<times> 'w MysticalBridge" where
  "import_python_annotations env annotations_data b =
     (case py_iter annotations_data of
        Inl e \<Rightarrow> (Inr [], log (Error_import_failed e) b)
      | Inr items \<Rightarrow>
     (case import_loop env items [] b of
        (Some e, ids, b1) \<Rightarrow> (Inr ids, log (Error_import_failed e) b1)
      | (None, ids, b1) \<Rightarrow>
          (Inr ids,
           log (Info_imported (length ids))
             (emit_event env ''annotations_imported''
                (PDict [(''count'', PInt (int (length ids))),
                        (''annotation_ids'', PList (map PStr ids))])
                b1))))"

text \<open>The same method from inside its loop: what it does from the moment when the
  items \<open>rest\<close> are left and \<open>imported_ids\<close> is \<open>ids\<close>.\<close>

definition import_remaining ::
  "'w env \<Rightarrow> pyval list \<Rightarrow> string list \<Rightarrow> 'w MysticalBridge
     \<Rightarrow> (exn + string list) \<times> 'w MysticalBridge" where
  "import_remaining env rest ids b =
     (case import_loop env rest ids b of
        (Some e, ids1, b1) \<Rightarrow> (Inr ids1, log (Error_import_failed e) b1)
      | (None, ids1, b1) \<Rightarrow>
          (Inr ids1,
           log (Info_imported (length ids1))
             (emit_event env ''annotations_imported''
                (PDict [(''count'', PInt (int (length ids1))),
                        (''annotation_ids'', PList (map PStr ids1))])
                b1)))"

subsection \<open>\<open>sync_python_data_to_react\<close>\<close>

fun bookmarks_loop ::
  "'w env \<Rightarrow> pyval list \<Rightarrow> 'w MysticalBridge \<Rightarrow> (exn + unit) \<times> 'w MysticalBridge" where
  "bookmarks_loop env [] b = (Inr (), b)"
| "bookmarks_loop env (bookmark_data # rest) b =
     (case py_getitem bookmark_data ''entryId'' of
        Inl e \<Rightarrow> (Inl e, b)
      | Inr entry \<Rightarrow>
     (case py_get bookmark_data ''isBookmarked'' (PBool True) of
        Inl e \<Rightarrow> (Inl e, b)
      | Inr flag \<Rightarrow>
     (case py_get bookmark_data ''personalNotes'' PNone of
        Inl e \<Rightarrow> (Inl e, b)
      | Inr personal \<Rightarrow>
     (case create_bookmark env entry flag personal (world b) of (r, w) \<Rightarrow>
        let b1 = b\<lparr>world := w,
                   trace := trace b @ [Remote (Create_bookmark entry flag personal) r]\<rparr>
        in case r of
             Some e \<Rightarrow> (Inl e, b1)
           | None \<Rightarrow> bookmarks_loop env rest b1))))"

fun collections_loop ::
  "'w env \<Rightarrow> pyval list \<Rightarrow> 'w MysticalBridge \<Rightarrow> (exn + unit) \<times> 'w MysticalBridge" where
  "collections_loop env [] b = (Inr (), b)"
| "collections_loop env (collection_data # rest) b =
     (case py_getitem collection_data ''title'' of
        Inl e \<Rightarrow> (Inl e, b)
      | Inr ttl \<Rightarrow>
     (case py_get collection_data ''entryIds'' (PList []) of
        Inl e \<Rightarrow> (Inl e, b)
      | Inr ids \<Rightarrow>
     (case py_get collection_data ''notes'' PNone of
        Inl e \<Rightarrow> (Inl e, b)
      | Inr nts \<Rightarrow>
     (case py_get collection_data ''isPublic'' (PBool False) of
        Inl e \<Rightarrow> (Inl e, b)
      | Inr pub \<Rightarrow>
     (case create_collection env ttl ids nts pub (world b) of (r, w) \<Rightarrow>
        let b1 = b\<lparr>world := w,
                   trace := trace b @ [Remote (Create_collection ttl ids nts pub) r]\<rparr>
        in case r of
             Some e \<Rightarrow> (Inl e, b1)
           | None \<Rightarrow> collections_loop env rest b1)))))"

text \<open>The three \<open>if ... in python_data\<close> blocks.\<close>

definition sync_bookmarks ::
  "'w env \<Rightarrow> pyval \<Rightarrow> 'w MysticalBridge \<Rightarrow> (exn + unit) \<times> 'w MysticalBridge" where
  "sync_bookmarks env python_data b =
     (case py_contains ''bookmarks'' python_data of
        Inl e \<Rightarrow> (Inl e, b)
      | Inr present \<Rightarrow>
          if \<not> present then (Inr (), b)
          else
     (case py_getitem python_data ''bookmarks'' of
        Inl e \<Rightarrow> (Inl e, b)
      | Inr bs \<Rightarrow>
     (case py_iter bs of
        Inl e \<Rightarrow> (Inl e, b)
      | Inr items \<Rightarrow> bookmarks_loop env items b)))"

definition sync_annotations ::
  "'w env \<Rightarrow> pyval \<Rightarrow> 'w MysticalBridge \<Rightarrow> (exn + unit) \<times> 'w MysticalBridge" where
  "sync_annotations env python_data b =
     (case py_contains ''annotations'' python_data of
        Inl e \<Rightarrow> (Inl e, b)
      | Inr present \<Rightarrow>
          if \<not> present then (Inr (), b)
          else
     (case py_getitem python_data ''annotations'' of
        Inl e \<Rightarrow> (Inl e, b)
      | Inr anns \<Rightarrow>
     (case import_python_annotations env anns b of
        (Inl e, b1) \<Rightarrow> (Inl e, b1)
      | (Inr ids, b1) \<Rightarrow> (Inr (), b1))))"

definition sync_collections ::
  "'w env \<Rightarrow> pyval \<Rightarrow> 'w MysticalBridge \<Rightarrow> (exn + unit) \<times> 'w MysticalBridge" where
  "sync_collections env python_data b =
     (case py_contains ''collections'' python_data of
        Inl e \<Rightarrow> (Inl e, b)
      | Inr present \<Rightarrow>
          if \<not> present then (Inr (), b)
          else
     (case py_getitem python_data ''collections'' of
        Inl e \<Rightarrow> (Inl e, b)
      | Inr cs \<Rightarrow>
     (case py_iter cs of
        Inl e \<Rightarrow> (Inl e, b)
      | Inr items \<Rightarrow> collections_loop env items b)))"

text \<open>\<open># Update sync state\<close> and what follows it: the version, the time, the file,
  the event.\<close>

definition sync_update ::
  "'w env \<Rightarrow> pyval \<Rightarrow> 'w MysticalBridge \<Rightarrow> (exn + unit) \<times> 'w MysticalBridge" where
  "sync_update env python_data b =
     (case py_add1 (python_version (sync_state b)) of
        Inl e \<Rightarrow> (Inl e, b)
      | Inr v \<Rightarrow>
     (let b1 = b\<lparr>sync_state := (sync_state b)\<lparr>python_version := v\<rparr>\<rparr> in
      case datetime_now env b1 of (t, b2) \<Rightarrow>
      let b3 = b2\<lparr>sync_state := (sync_state b2)\<lparr>last_sync := t\<rparr>\<rparr> in
      case save_shared_state env b3 of
        (Inl e, b4) \<Rightarrow> (Inl e, b4)
      | (Inr u, b4) \<Rightarrow>
     (case py_keys python_data of
        Inl e \<Rightarrow> (Inl e, b4)
      | Inr data_types \<Rightarrow>
          (Inr (),
           emit_event env ''python_data_synced''
             (PDict [(''data_types'', data_types),
                     (''sync_version'', python_version (sync_state b4))])
             b4))))"

text \<open>One step after the other, as long as none raises.\<close>

definition and_then ::
  "('s \<Rightarrow> (exn + unit) \<times> 's) \<Rightarrow> ('s \<Rightarrow> (exn + unit) \<times> 's) \<Rightarrow> 's \<Rightarrow> (exn + unit) \<times> 's" where
  "and_then f g b = (case f b of (Inl e, b1) \<Rightarrow> (Inl e, b1) | (Inr u, b1) \<Rightarrow> g b1)"

definition sync_body ::
  "'w env \<Rightarrow> pyval \<Rightarrow> 'w MysticalBridge \<Rightarrow> (exn + unit) \<times> 'w MysticalBridge" where
  "sync_body env python_data =
     and_then (sync_bookmarks env python_data)
       (and_then (sync_annotations env python_data)
          (and_then (sync_collections env python_data)
             (sync_update env python_data)))"

text \<open>\<open>return True\<close> at the end of the \<open>try\<close>; \<open>except Exception\<close>: log and
  \<open>return False\<close>.\<close>

definition sync_python_data_to_react ::
  "'w env \<Rightarrow> pyval \<Rightarrow> 'w MysticalBridge \<Rightarrow> (exn + bool) \<times> 'w MysticalBridge" where
  "sync_python_data_to_react env python_data b =
     (case sync_body env python_data b of
        (Inl e, b1) \<Rightarrow> (Inr False, log (Error_sync_failed e) b1)
      | (Inr u, b1) \<Rightarrow> (Inr True, b1))"

subsection \<open>\<open>_check_for_changes\<close>, \<open>clear_cache\<close>, \<open>force_sync\<close>\<close>

text \<open>\<open>a - b\<close> on datetimes, in microseconds.\<close>

fun datetime_minus :: "datetime \<Rightarrow> datetime \<Rightarrow> exn + int" where
  "datetime_minus (Naive a) (Naive b) = Inr (a - b)"
| "datetime_minus (Aware a oa) (Aware b ob) = Inr (a - b)"
| "datetime_minus x y = Inl TypeError"

definition check_for_changes ::
  "'w env \<Rightarrow> 'w MysticalBridge \<Rightarrow> (exn + unit) \<times> 'w MysticalBridge" where
  "check_for_changes env b =
     (case datetime_now env b of (current_time, b1) \<Rightarrow>
      case datetime_minus current_time (last_sync (sync_state b1)) of
        Inl e \<Rightarrow> (Inr (), log (Error_change_detection e) b1)
      | Inr elapsed \<Rightarrow>
          if elapsed > sync_interval b1 * 1000000
          then (case save_shared_state env
                       (b1\<lparr>sync_state := (sync_state b1)\<lparr>last_sync := current_time\<rparr>\<rparr>) of
                  (Inl e, b2) \<Rightarrow> (Inr (), log (Error_change_detection e) b2)
                | (Inr u, b2) \<Rightarrow> (Inr (), b2))
          else (Inr (), b1))"

text \<open>\<open>clear_cache\<close> has no \<open>try\<close>: what \<open>self.local_cache.clear()\<close> raises
  reaches the caller.\<close>

definition clear_cache ::
  "'w env \<Rightarrow> 'w MysticalBridge \<Rightarrow> (exn + unit) \<times> 'w MysticalBridge" where
  "clear_cache env b =
     (case py_clear (local_cache b) of
        Inl e \<Rightarrow> (Inl e, b)
      | Inr c \<Rightarrow>
     (case save_shared_state env (b\<lparr>local_cache := c\<rparr>) of
        (Inl e, b1) \<Rightarrow> (Inl e, b1)
      | (Inr u, b1) \<Rightarrow> (Inr (), log Info_cache_cleared b1)))"

definition force_sync_body ::
  "'w env \<Rightarrow> 'w MysticalBridge \<Rightarrow> (exn + unit) \<times> 'w MysticalBridge" where
  "force_sync_body env b =
     (case check_for_changes env b of
        (Inl e, b1) \<Rightarrow> (Inl e, b1)
      | (Inr u, b1) \<Rightarrow>
     (case datetime_now env b1 of (t, b2) \<Rightarrow>
      case save_shared_state env (b2\<lparr>sync_state := (sync_state b2)\<lparr>last_sync := t\<rparr>\<rparr>) of
        (Inl e, b3) \<Rightarrow> (Inl e, b3)
      | (Inr u, b3) \<Rightarrow>
     (case datetime_now env b3 of (t2, b4) \<Rightarrow>
        (Inr (),
         log Info_force_sync_completed
           (emit_event env ''force_sync_completed''
              (PDict [(''timestamp'', PStr (isoformat env t2)),
                      (''sync_version'', python_version (sync_state b4))])
              b4)))))"

definition force_sync ::
  "'w env \<Rightarrow> 'w MysticalBridge \<Rightarrow> (exn + unit) \<times> 'w MysticalBridge" where
  "force_sync env b =
     (case force_sync_body env b of
        (Inl e, b1) \<Rightarrow> (Inr (), log (Error_force_sync_failed e) b1)
      | (Inr u, b1) \<Rightarrow> (Inr (), b1))"

subsection \<open>The operations of a bridge\<close>

text \<open>
  The methods above, as the steps a bridge can take once it is constructed
  (\<open>_load_shared_state\<close> runs in the constructor only). The methods that only read
  (\<open>export_entries_for_analysis\<close>, \<open>get_bridge_status\<close>) and the daemon thread, whose
  loop calls these same methods, are not steps of their own.
\<close>

datatype 'w operation =
    Register_event_handler string "'w handler"
  | Emit_event string pyval
  | Export_collection_for_python string
  | Import_python_annotations pyval
  | Sync_python_data_to_react pyval
  | Check_for_changes
  | Clear_cache
  | Force_sync
  | Save_shared_state

fun run_operation :: "'w env \<Rightarrow> 'w operation \<Rightarrow> 'w MysticalBridge \<Rightarrow> 'w MysticalBridge" where
  "run_operation env (Register_event_handler ty h) b = register_event_handler ty h b"
| "run_operation env (Emit_event ty pl) b = emit_event env ty pl b"
| "run_operation env (Export_collection_for_python cid) b =
     snd (export_collection_for_python env cid b)"
| "run_operation env (Import_python_annotations xs) b =
     snd (import_python_annotations env xs b)"
| "run_operation env (Sync_python_data_to_react d) b =
     snd (sync_python_data_to_react env d b)"
| "run_operation env Check_for_changes b = snd (check_for_changes env b)"
| "run_operation env Clear_cache b = snd (clear_cache env b)"
| "run_operation env Force_sync b = snd (force_sync env b)"
| "run_operation env Save_shared_state b = snd (save_shared_state env b)"

subsection \<open>Reading the effects\<close>

text \<open>What a list of effects holds of each kind, in order: the handler calls (position
  and message), the messages queued, the calls on the client with what they raised, and
  the lines logged.\<close>

fun handled_calls :: "effect list \<Rightarrow> (nat \<times> BridgeMessage) list" where
  "handled_calls [] = []"
| "handled_calls (Handled i m r # es) = (i, m) # handled_calls es"
| "handled_calls (e # es) = handled_calls es"

fun queued :: "effect list \<Rightarrow> BridgeMessage list" where
  "queued [] = []"
| "queued (Queued m # es) = m # queued es"
| "queued (e # es) = queued es"

fun remote_calls :: "effect list \<Rightarrow> (remote_call \<times> exn option) list" where
  "remote_calls [] = []"
| "remote_calls (Remote c r # es) = (c, r) # remote_calls es"
| "remote_calls (e # es) = remote_calls es"

fun logged :: "effect list \<Rightarrow> log_entry list" where
  "logged [] = []"
| "logged (Logged l # es) = l # logged es"
| "logged (e # es) = logged es"

text \<open>The effects that publish an event: a message queued, a handler called.\<close>

fun events :: "effect list \<Rightarrow> effect list" where
  "events [] = []"
| "events (Queued m # es) = Queued m # events es"
| "events (Handled i m r # es) = Handled i m r # events es"
| "events (e # es) = events es"

text \<open>The sum of the integer values of a dict: the total of a histogram.\<close>

fun py_int :: "pyval \<Rightarrow> int" where
  "py_int (PInt n) = n"
| "py_int v = 0"

fun values_total :: "pyval \<Rightarrow> int" where
  "values_total (PDict kvs) = sum_list (map (\<lambda>kv. py_int (snd kv)) kvs)"
| "values_total v = 0"

text \<open>
  Kinds of effects to count: what a handler call leaves (the call, and the log line when
  it raised), an annotation created, an invalid annotation skipped, an import given up,
  a bookmark or a collection that the store refused, any call on the client.
\<close>

fun is_delivery :: "effect \<Rightarrow> bool" where
  "is_delivery (Handled i m r) = True"
| "is_delivery (Logged (Error_event_handler e)) = True"
| "is_delivery x = False"

fun is_created :: "effect \<Rightarrow> bool" where
  "is_created (Remote (Create_annotation e c a) None) = True"
| "is_created x = False"

fun is_skipped :: "effect \<Rightarrow> bool" where
  "is_skipped (Logged (Warning_skipping_annotation x)) = True"
| "is_skipped x = False"

fun is_import_failure :: "effect \<Rightarrow> bool" where
  "is_import_failure (Logged (Error_import_failed e)) = True"
| "is_import_failure x = False"

fun is_failed_write :: "effect \<Rightarrow> bool" where
  "is_failed_write (Remote (Create_bookmark e f p) (Some x)) = True"
| "is_failed_write (Remote (Create_collection t i n p) (Some x)) = True"
| "is_failed_write x = False"

fun is_remote :: "effect \<Rightarrow> bool" where
  "is_remote (Remote c r) = True"
| "is_remote x = False"

definition how_many :: "(effect \<Rightarrow> bool) \<Rightarrow> effect list \<Rightarrow> nat" where
  "how_many P es = length (filter P es)"

text \<open>The documents \<open>_load_shared_state\<close> takes: a JSON object without
  \<open>sync_state\<close>, or one whose \<open>sync_state\<close> is an object with a \<open>last_sync\<close> string
  that \<open>fromisoformat\<close> reads.\<close>

fun loadable :: "'w env \<Rightarrow> pyval \<Rightarrow> bool" where
  "loadable env (PDict kvs) =
     (case map_of kvs ''sync_state'' of
        None \<Rightarrow> True
      | Some (PDict skvs) \<Rightarrow>
          (case map_of skvs ''last_sync'' of
             Some (PStr s) \<Rightarrow> fromisoformat env s \<noteq> None
           | _ \<Rightarrow> False)
      | Some _ \<Rightarrow> False)"
| "loadable env v = False"

section \<open>Concrete inputs for the examples\<close>

subsection \<open>For the client\<close>

text \<open>Two retries allowed; the server fails twice and then answers 200.\<close>

definition demo_config :: python_config where
  "demo_config = \<lparr>max_retries = 2, mystical_theme = False\<rparr>"

definition ok_response :: response where
  "ok_response = \<lparr>status_code = 200, json_body = None\<rparr>"

definition fails_twice :: "nat \<Rightarrow> net_outcome" where
  "fails_twice = (\<lambda>i. if i < 2 then Fails ''timed out'' else Responds ok_response)"

subsection \<open>For the bridge\<close>

text \<open>
  A clock, a remote store and a collection. The world is the clock (microseconds since
  midnight of 1970-01-01, local time) and every reading advances it by one microsecond.
  \<open>demo_isoformat_sep\<close> writes the datetimes of that day as \<open>isoformat\<close> does, and
  \<open>demo_fromisoformat\<close> reads back the ones the examples produce. The store refuses an
  annotation whose content is \<open>rejected\<close>, a bookmark on the entry \<open>missing\<close> and a
  collection titled \<open>forbidden\<close>.
\<close>

definition two_digits :: "int \<Rightarrow> string" where
  "two_digits n = str_int (n div 10) @ str_int (n mod 10)"

definition six_digits :: "int \<Rightarrow> string" where
  "six_digits n = (let s = str_int n in replicate (6 - length s) CHR ''0'' @ s)"

text \<open>A clock for the examples: the world is the clock (microseconds since midnight of
  1970-01-01) and every reading advances it by one microsecond.\<close>

definition demo_isoformat_sep :: "string \<Rightarrow> datetime \<Rightarrow> string" where
  "demo_isoformat_sep sep d =
     (case d of
        Naive t \<Rightarrow>
          (let s = t div 1000000; us = t mod 1000000 in
           ''1970-01-01'' @ sep @ two_digits (s div 3600) @ '':'' @ two_digits (s div 60 mod 60)
             @ '':'' @ two_digits (s mod 60) @ (if us = 0 then [] else ''.'' @ six_digits us))
      | Aware t off \<Rightarrow> ''aware'')"

definition demo_instants :: "datetime list" where
  "demo_instants = map (\<lambda>i. Naive (int i)) [0..<12] @ map (\<lambda>i. Naive (3600000000 + int i)) [0..<12]"

definition demo_fromisoformat :: "string \<Rightarrow> datetime option" where
  "demo_fromisoformat s = find (\<lambda>d. demo_isoformat_sep ''T'' d = s) demo_instants"

definition demo_entry :: "string \<Rightarrow> string \<Rightarrow> CodexEntry" where
  "demo_entry i cat =
     \<lparr>entry_id = i, filename = i @ ''.txt'', entry_type = ''text'', entry_size = 10,
      originalSize = None, processedDate = Some (Naive 5), summary = ''a summary'',
      keyChunks = None, fullText = Some ''the full text'', category = cat,
      subcategory = None, keyTerms = Some [''moon''], bookmark = Attr None\<rparr>"

definition demo_collection :: Collection where
  "demo_collection =
     \<lparr>collection_id = ''c1'', title = ''First'', entryIds = [''e1'', ''e2'', ''e3''],
      collection_notes = None, isPublic = False, collection_createdAt = Naive 0,
      collection_updatedAt = Naive 0,
      entries = [demo_entry ''e1'' ''alchemy'', demo_entry ''e2'' ''tarot'',
                 demo_entry ''e3'' ''alchemy'']\<rparr>"

definition demo_env :: "int env" where
  "demo_env =
     \<lparr>now = (\<lambda>w. (w, w + 1)),
      time_ms = (\<lambda>w. (w div 1000, w)),
      isoformat = demo_isoformat_sep ''T'',
      str_datetime = demo_isoformat_sep '' '',
      fromisoformat = demo_fromisoformat,
      list_of_set = (\<lambda>xs. xs),
      get_collections = (\<lambda>w. (Inr [demo_collection], w)),
      create_annotation = (\<lambda>entry content author w.
         (if content = PStr ''rejected'' then Inl (MysticalAPIError ''rejected'')
          else Inr (''note-on-'' @ py_str (\<lambda>v. ''?'') entry), w)),
      create_bookmark = (\<lambda>entry flag personal w.
         (if entry = PStr ''missing'' then Some (MysticalAPIError ''no such entry'') else None, w)),
      create_collection = (\<lambda>ttl ids nts pub w.
         (if ttl = PStr ''forbidden'' then Some (MysticalAPIError ''forbidden'') else None, w))\<rparr>"

definition demo_bridge :: "int MysticalBridge" where
  "demo_bridge = snd (new_bridge demo_env True True 5 Absent True 0)"

definition annotation :: "string \<Rightarrow> string \<Rightarrow> pyval" where
  "annotation e c = PDict [(''entryId'', PStr e), (''content'', PStr c), (''authorName'', PStr ''me'')]"

text \<open>The same store, unreachable: \<open>get_collections\<close> raises.\<close>

definition offline_env :: "int env" where
  "offline_env = demo_env\<lparr>get_collections := (\<lambda>w. (Inl (MysticalAPIError ''offline''), w))\<rparr>"

text \<open>The export of the collection \<open>c1\<close> by a bridge just constructed.\<close>

definition demo_export_run :: "(exn + pyval) \<times> int MysticalBridge" where
  "demo_export_run = export_collection_for_python demo_env ''c1'' demo_bridge"

text \<open>Batches of annotations: a valid one is a dict with the three required keys.
  The second of \<open>three_annotations\<close> lacks \<open>content\<close>; the first of
  \<open>rejected_then_fine\<close> is refused by the store.\<close>

definition three_annotations :: pyval where
  "three_annotations =
     PList [annotation ''e1'' ''first note'',
            PDict [(''entryId'', PStr ''e2''), (''authorName'', PStr ''me'')],
            annotation ''e3'' ''third note'']"

definition rejected_then_fine :: pyval where
  "rejected_then_fine = PList [annotation ''e1'' ''rejected'', annotation ''e2'' ''fine'']"

text \<open>Two handlers for the event bus: the first raises, the second counts.\<close>

definition failing_handler :: "int handler" where
  "failing_handler = (\<lambda>m w. (Some (ValueError ''boom''), w + 10))"

definition counting_handler :: "int handler" where
  "counting_handler = (\<lambda>m w. (None, w + 1000))"

definition two_handlers_bridge :: "int MysticalBridge" where
  "two_handlers_bridge =
     register_event_handler ''ping'' counting_handler
       (register_event_handler ''ping'' failing_handler demo_bridge)"

text \<open>Two state files: in the first the version is a string and the cache a list, in
  the second \<open>sync_state\<close> has no \<open>last_sync\<close>.\<close>

definition typeless_document :: pyval where
  "typeless_document =
     PDict [(''sync_state'', PDict [(''last_sync'', PStr ''1970-01-01T00:00:00.000003''),
                                    (''python_version'', PStr ''seven'')]),
            (''local_cache'', PList [PInt 1])]"

definition truncated_document :: pyval where
  "truncated_document = PDict [(''sync_state'', PDict [(''react_version'', PInt 4)])]"

text \<open>A bridge with a state of its own, whose conflicts are resolved by
  \<open>react_wins\<close>.\<close>

definition react_wins_bridge :: "int MysticalBridge" where
  "react_wins_bridge =
     demo_bridge\<lparr>sync_state := \<lparr>last_sync = Naive 3, react_version = PInt 2,
                      python_version = PInt 7, pending_changes = PList [PStr ''e1''],
                      conflict_resolution = ''react_wins''\<rparr>,
                  local_cache := PDict [(''k'', PInt 1)]\<rparr>"

section \<open>The client retries transport failures only\<close>

lemma status_error_msg_status:
  "sublist (str_int (status_code r)) (status_error_msg fmt cfg r)"
proof (cases "mystical_theme cfg")
  case True
  have eq: "status_error_msg fmt cfg r =
      (moon @ '' The cosmic energies have disrupted the connection (Status: '')
      @ str_int (status_code r)
      @ ('')'' @ (case error_detail r of None \<Rightarrow> [] | Some d \<Rightarrow> '' - '' @ py_str fmt d))"
    using True by (simp add: status_error_msg_def)
  show ?thesis unfolding eq by (rule sublist_appendI)
next
  case False
  have eq: "status_error_msg fmt cfg r =
      ''API request failed with status ''
      @ str_int (status_code r)
      @ (case error_detail r of None \<Rightarrow> [] | Some d \<Rightarrow> '' - '' @ py_str fmt d)"
    using False by (simp add: status_error_msg_def)
  show ?thesis unfolding eq by (rule sublist_appendI)
qed

lemma status_error_msg_detail:
  assumes "error_detail r = Some d"
  shows "suffix ('' - '' @ py_str fmt d) (status_error_msg fmt cfg r)"
  unfolding status_error_msg_def using assms by (simp add: suffix_def)

lemma status_error_msg_message:
  assumes "json_body r = Some (PDict kvs)" and "map_of kvs ''message'' = Some (PStr m)"
  shows "sublist m (status_error_msg fmt cfg r)"
proof (cases "m = []")
  case True
  then show ?thesis by simp
next
  case False
  then have "error_detail r = Some (PStr m)"
    using assms by (simp add: error_detail_def)
  from status_error_msg_detail [OF this, of fmt cfg]
  obtain pre where "status_error_msg fmt cfg r = pre @ '' - '' @ m"
    by (auto simp: suffix_def)
  then have "status_error_msg fmt cfg r = (pre @ '' - '') @ m"
    by simp
  then show ?thesis
    by (simp only: sublist_append_leftI)
qed

lemma make_request_loop_skip:
  assumes "a \<le> k" "k \<le> n"
    and "\<forall>i. a \<le> i \<and> i < k \<longrightarrow> (\<exists>e. session i = Fails e) \<and> int i \<noteq> max_retries cfg"
  shows "make_request_loop fmt cfg session [a..<n] sent slept =
         make_request_loop fmt cfg session [k..<n] (sent @ [a..<k]) (slept @ map (\<lambda>i. 2 ^ i) [a..<k])"
  using assms
proof (induction k)
  case 0
  then show ?case by simp
next
  case (Suc k)
  show ?case
  proof (cases "a = Suc k")
    case True
    then show ?thesis by simp
  next
    case False
    with Suc.prems have ak: "a \<le> k" and kn: "k < n" by simp_all
    from Suc.prems ak obtain e where e: "session k = Fails e" and ne: "int k \<noteq> max_retries cfg"
      by (metis lessI)
    have "make_request_loop fmt cfg session [a..<n] sent slept =
          make_request_loop fmt cfg session [k..<n] (sent @ [a..<k]) (slept @ map (\<lambda>i. 2 ^ i) [a..<k])"
      using Suc.IH ak kn Suc.prems(3) by simp
    also have "[k..<n] = k # [Suc k..<n]"
      using kn by (simp add: upt_conv_Cons)
    finally show ?thesis
      using e ne ak by simp
  qed
qed

lemma make_request_at:
  assumes "0 \<le> max_retries cfg" and "int k \<le> max_retries cfg"
    and "\<forall>i<k. \<exists>e. session i = Fails e"
  shows "make_request fmt cfg session =
         make_request_loop fmt cfg session (k # [Suc k..<nat (max_retries cfg + 1)])
           [0..<k] (map (\<lambda>i. 2 ^ i) [0..<k])"
proof -
  let ?n = "nat (max_retries cfg + 1)"
  have kn: "k < ?n" using assms(1,2) by linarith
  have fails: "\<forall>i. 0 \<le> i \<and> i < k \<longrightarrow> (\<exists>e. session i = Fails e) \<and> int i \<noteq> max_retries cfg"
    using assms(2,3) by auto
  have "make_request_loop fmt cfg session [0..<?n] [] [] =
        make_request_loop fmt cfg session [k..<?n] ([] @ [0..<k]) ([] @ map (\<lambda>i. 2 ^ i) [0..<k])"
    by (rule make_request_loop_skip) (use kn fails in simp_all)
  moreover have "[k..<?n] = k # [Suc k..<?n]"
    using kn by (simp add: upt_conv_Cons)
  ultimately show ?thesis by (simp add: make_request_def)
qed

text \<open>
  Claim C2. Let \<open>max_retries\<close> be at least 0 and let the first \<open>k\<close> attempts
  (\<open>k \<le> max_retries\<close>) fail at the transport level. Then after failed attempt \<open>i\<close>
  the client has slept \<open>2 ^ i\<close> seconds and tried again, and attempt \<open>k\<close> decides: a
  response below 400 is returned; a response with status 400 or more raises
  \<open>MysticalAPIError\<close> at once, with no further request and no further sleep, and the text
  of the error holds the status code and the \<open>message\<close> string of a JSON object body; a
  transport failure of the last allowed attempt (\<open>k = max_retries\<close>) raises
  \<open>MysticalAPIError\<close> too.
\<close>

theorem make_request_retry_policy:
  assumes "0 \<le> max_retries cfg" and "int k \<le> max_retries cfg"
    and "\<forall>i<k. \<exists>e. session i = Fails e"
  shows
   "(\<forall>r. session k = Responds r \<and> status_code r < 400 \<longrightarrow>
        make_request fmt cfg session =
          \<lparr>outcome = Inr (Some r), requests = [0..<Suc k], sleeps = map (\<lambda>i. 2 ^ i) [0..<k]\<rparr>)
    \<and> (\<forall>r. session k = Responds r \<and> 400 \<le> status_code r \<longrightarrow>
        make_request fmt cfg session =
          \<lparr>outcome = Inl (MysticalAPIError (status_error_msg fmt cfg r)),
           requests = [0..<Suc k], sleeps = map (\<lambda>i. 2 ^ i) [0..<k]\<rparr>
        \<and> sublist (str_int (status_code r)) (status_error_msg fmt cfg r)
        \<and> (\<forall>kvs m. json_body r = Some (PDict kvs) \<and> map_of kvs ''message'' = Some (PStr m)
              \<longrightarrow> sublist m (status_error_msg fmt cfg r)))
    \<and> (\<forall>e. session k = Fails e \<and> int k = max_retries cfg \<longrightarrow>
        make_request fmt cfg session =
          \<lparr>outcome = Inl (MysticalAPIError (transport_error_msg cfg e)),
           requests = [0..<Suc k], sleeps = map (\<lambda>i. 2 ^ i) [0..<k]\<rparr>)"
proof -
  note at = make_request_at [OF assms, of fmt]
  have ok: "make_request fmt cfg session =
          \<lparr>outcome = Inr (Some r), requests = [0..<Suc k], sleeps = map (\<lambda>i. 2 ^ i) [0..<k]\<rparr>"
    if "session k = Responds r" "status_code r < 400" for r
    using that by (simp add: at)
  have bad: "make_request fmt cfg session =
          \<lparr>outcome = Inl (MysticalAPIError (status_error_msg fmt cfg r)),
           requests = [0..<Suc k], sleeps = map (\<lambda>i. 2 ^ i) [0..<k]\<rparr>"
    if "session k = Responds r" "400 \<le> status_code r" for r
    using that by (simp add: at)
  have gone: "make_request fmt cfg session =
          \<lparr>outcome = Inl (MysticalAPIError (transport_error_msg cfg e)),
           requests = [0..<Suc k], sleeps = map (\<lambda>i. 2 ^ i) [0..<k]\<rparr>"
    if "session k = Fails e" "int k = max_retries cfg" for e
    using that by (simp add: at)
  show ?thesis
    using ok bad gone status_error_msg_status status_error_msg_message by blast
qed

text \<open>The scenario of the specification: \<open>max_retries = 2\<close>, two transport failures,
  then a success. Three requests, sleeps of 1 and 2 seconds, 3 seconds in all.\<close>

theorem make_request_retry_policy_witness:
  "make_request (\<lambda>v. []) demo_config fails_twice =
     \<lparr>outcome = Inr (Some ok_response), requests = [0, 1, 2], sleeps = [1, 2]\<rparr>
   \<and> sum_list (sleeps (make_request (\<lambda>v. []) demo_config fails_twice)) = 3"
proof -
  have "0 \<le> max_retries demo_config" "int 2 \<le> max_retries demo_config"
    "\<forall>i<2. \<exists>e. fails_twice i = Fails e"
    by (simp_all add: demo_config_def fails_twice_def)
  from make_request_retry_policy [OF this, of "\<lambda>v. []"]
  have "fails_twice 2 = Responds ok_response \<and> status_code ok_response < 400 \<longrightarrow>
        make_request (\<lambda>v. []) demo_config fails_twice =
          \<lparr>outcome = Inr (Some ok_response), requests = [0..<Suc 2],
           sleeps = map (\<lambda>i. 2 ^ i) [0..<2]\<rparr>"
    by blast
  moreover have "fails_twice 2 = Responds ok_response" "status_code ok_response < 400"
    by (simp_all add: fails_twice_def ok_response_def)
  moreover have "[0..<Suc 2] = [0, 1, 2]" "map (\<lambda>i. 2 ^ i) [0..<2] = [1, 2 :: nat]"
    by (simp_all add: upt_rec)
  ultimately show ?thesis
    by simp
qed

section \<open>The event bus delivers in registration order\<close>

text \<open>The bridge of the examples, as its constructor leaves it.\<close>

lemma demo_bridge_eq:
  "demo_bridge =
     \<lparr>sync_state = default_sync_state (Naive 0), message_queue = [],
      event_handlers = [], local_cache = PDict [],
      auto_sync = True, bidirectional = True, sync_interval = 5,
      shared_state = Absent, file_writable = True, trace = [], world = 1\<rparr>"
  by (simp add: demo_bridge_def new_bridge_def load_shared_state_def demo_env_def)

lemma handled_calls_append [simp]:
  "handled_calls (xs @ ys) = handled_calls xs @ handled_calls ys"
  by (induction xs rule: handled_calls.induct) simp_all

lemma queued_append [simp]: "queued (xs @ ys) = queued xs @ queued ys"
  by (induction xs rule: queued.induct) simp_all

lemma remote_calls_append [simp]:
  "remote_calls (xs @ ys) = remote_calls xs @ remote_calls ys"
  by (induction xs rule: remote_calls.induct) simp_all

lemma logged_append [simp]: "logged (xs @ ys) = logged xs @ logged ys"
  by (induction xs rule: logged.induct) simp_all

lemma log_fields [simp]:
  "trace (log l b) = trace b @ [Logged l]"
  "world (log l b) = world b"
  "message_queue (log l b) = message_queue b"
  "sync_state (log l b) = sync_state b"
  "local_cache (log l b) = local_cache b"
  "shared_state (log l b) = shared_state b"
  "event_handlers (log l b) = event_handlers b"
  "file_writable (log l b) = file_writable b"
  "auto_sync (log l b) = auto_sync b"
  "bidirectional (log l b) = bidirectional b"
  "sync_interval (log l b) = sync_interval b"
  by (simp_all add: log_def)

lemma call_handlers_queue [simp]:
  "message_queue (call_handlers m hs i b) = message_queue b"
  by (induction hs arbitrary: i b) (simp_all add: Let_def split: prod.splits option.splits)

lemma call_handlers_world:
  "world (call_handlers m hs i b) = fold (\<lambda>h w. snd (h m w)) hs (world b)"
  by (induction hs arbitrary: i b) (simp_all add: Let_def split: prod.splits option.splits)

lemma call_handlers_trace:
  "\<exists>new. trace (call_handlers m hs i b) = trace b @ new
     \<and> handled_calls new = map (\<lambda>j. (j, m)) [i..<i + length hs]
     \<and> queued new = [] \<and> remote_calls new = []
     \<and> set (logged new) \<subseteq> range Error_event_handler"
proof (induction hs arbitrary: i b)
  case Nil
  then show ?case by simp
next
  case (Cons h hs)
  obtain r w where hw: "h m (world b) = (r, w)" by (cases "h m (world b)")
  define b2 where "b2 = (case r of
      None \<Rightarrow> b\<lparr>world := w, trace := trace b @ [Handled i m r]\<rparr>
    | Some e \<Rightarrow> log (Error_event_handler e) (b\<lparr>world := w, trace := trace b @ [Handled i m r]\<rparr>))"
  have step: "call_handlers m (h # hs) i b = call_handlers m hs (Suc i) b2"
    unfolding b2_def by (simp add: hw Let_def)
  obtain mid where mid: "trace b2 = trace b @ mid" "handled_calls mid = [(i, m)]"
    "queued mid = []" "remote_calls mid = []" "set (logged mid) \<subseteq> range Error_event_handler"
    by (cases r) (auto simp: b2_def)
  from Cons.IH [of "Suc i" b2] obtain new where new:
    "trace (call_handlers m hs (Suc i) b2) = trace b2 @ new"
    "handled_calls new = map (\<lambda>j. (j, m)) [Suc i..<Suc i + length hs]"
    "queued new = []" "remote_calls new = []" "set (logged new) \<subseteq> range Error_event_handler"
    by blast
  have "[i..<Suc (i + length hs)] = i # [Suc i..<Suc (i + length hs)]"
    by (rule upt_conv_Cons) simp
  then have "[i..<i + length (h # hs)] = i # [Suc i..<Suc i + length hs]"
    by simp
  then show ?case
    using mid new step by (intro exI [of _ "mid @ new"]) auto
qed

lemma datetime_now_eq:
  "datetime_now env b = (Naive (fst (now env (world b))), b\<lparr>world := snd (now env (world b))\<rparr>)"
  by (simp add: datetime_now_def split: prod.splits)

lemma call_handlers_fields [simp]:
  "sync_state (call_handlers m hs i b) = sync_state b"
  "local_cache (call_handlers m hs i b) = local_cache b"
  "shared_state (call_handlers m hs i b) = shared_state b"
  "event_handlers (call_handlers m hs i b) = event_handlers b"
  "file_writable (call_handlers m hs i b) = file_writable b"
  "auto_sync (call_handlers m hs i b) = auto_sync b"
  "bidirectional (call_handlers m hs i b) = bidirectional b"
  "sync_interval (call_handlers m hs i b) = sync_interval b"
  by (induction hs arbitrary: i b; simp add: Let_def split: prod.splits option.splits)+

lemma new_message_eq:
  "new_message env ty pl b =
     (\<lparr>msg_type = ty, timestamp = Naive (fst (now env (world b))), source = ''python'',
       payload = pl,
       message_id = ''python'' @ ''_'' @ str_int (fst (time_ms env (snd (now env (world b)))))\<rparr>,
      b\<lparr>world := snd (time_ms env (snd (now env (world b))))\<rparr>)"
  by (simp add: new_message_def datetime_now_eq split: prod.splits)

lemma emit_event_fields [simp]:
  "sync_state (emit_event env ty pl b) = sync_state b"
  "local_cache (emit_event env ty pl b) = local_cache b"
  "shared_state (emit_event env ty pl b) = shared_state b"
  "event_handlers (emit_event env ty pl b) = event_handlers b"
  "file_writable (emit_event env ty pl b) = file_writable b"
  "auto_sync (emit_event env ty pl b) = auto_sync b"
  "bidirectional (emit_event env ty pl b) = bidirectional b"
  "sync_interval (emit_event env ty pl b) = sync_interval b"
  by (simp_all add: emit_event_def new_message_eq Let_def split: option.splits)

lemma call_handlers_effects:
  "trace (call_handlers m hs i b) = trace b @ concat (map (\<lambda>k.
       case fst ((hs ! k) m (fold (\<lambda>h w. snd (h m w)) (take k hs) (world b))) of
         None \<Rightarrow> [Handled (i + k) m None]
       | Some e \<Rightarrow> [Handled (i + k) m (Some e), Logged (Error_event_handler e)])
     [0..<length hs])"
proof (induction hs arbitrary: i b)
  case Nil
  then show ?case by simp
next
  case (Cons h hs)
  obtain r w where hw: "h m (world b) = (r, w)" by (cases "h m (world b)")
  define b2 where "b2 = (case r of
      None \<Rightarrow> b\<lparr>world := w, trace := trace b @ [Handled i m r]\<rparr>
    | Some e \<Rightarrow> log (Error_event_handler e) (b\<lparr>world := w, trace := trace b @ [Handled i m r]\<rparr>))"
  have step: "call_handlers m (h # hs) i b = call_handlers m hs (Suc i) b2"
    unfolding b2_def by (simp add: hw Let_def)
  have w2: "world b2 = w" by (cases r) (simp_all add: b2_def)
  have t2: "trace b2 = trace b @ (case r of None \<Rightarrow> [Handled i m None]
      | Some e \<Rightarrow> [Handled i m (Some e), Logged (Error_event_handler e)])"
    by (cases r) (simp_all add: b2_def)
  have upt: "[0..<length (h # hs)] = 0 # map Suc [0..<length hs]"
    by (simp add: upt_conv_Cons map_Suc_upt del: upt_Suc)
  show ?case
    unfolding step Cons.IH [of "Suc i" b2] upt
    by (simp add: w2 t2 hw comp_def del: upt_Suc cong: option.case_cong)
qed

text \<open>
  Claim C7. \<open>emit_event\<close> builds the message \<open>m\<close> (of the given type and payload,
  from the source \<open>python\<close>), puts it on the queue, and only then calls the handlers
  registered for the type, each once, in the order of registration, each in the world
  the earlier ones left. A handler that raises has its exception logged
  (\<open>Error_event_handler\<close>) and the next one is called all the same; a handler that
  returns logs nothing. So the new effects are exactly the queueing of \<open>m\<close>, then for
  each position \<open>k\<close> the call of handler \<open>k\<close> with \<open>m\<close>, followed by the log entry of
  what it raised when it raised. The world ends as the handlers leave it one after the
  other, the queue ends with \<open>m\<close>, and the handlers, the sync state, the cache and the
  state file are as before. \<open>register_event_handler\<close> appends to the handlers of its
  type, leaves the handlers of every other type alone, and changes nothing else.
\<close>

theorem emit_event_delivers:
  "case new_message env event_type pl b of (m, b1) \<Rightarrow>
     let hs = handlers_for b event_type;
         world_before = (\<lambda>k. fold (\<lambda>h w. snd (h m w)) (take k hs) (world b1));
         raised = (\<lambda>k. fst ((hs ! k) m (world_before k)))
     in
     msg_type m = event_type \<and> payload m = pl \<and> source m = ''python''
   \<and> message_queue (emit_event env event_type pl b) = message_queue b @ [m]
   \<and> trace (emit_event env event_type pl b)
       = trace b @ Queued m # concat (map (\<lambda>k.
           case raised k of
             None \<Rightarrow> [Handled k m None]
           | Some e \<Rightarrow> [Handled k m (Some e), Logged (Error_event_handler e)])
         [0..<length hs])
   \<and> take (Suc (length (trace b))) (trace (emit_event env event_type pl b))
       = trace b @ [Queued m]
   \<and> handled_calls (drop (Suc (length (trace b))) (trace (emit_event env event_type pl b)))
       = map (\<lambda>i. (i, m)) [0..<length hs]
   \<and> world (emit_event env event_type pl b) = fold (\<lambda>h w. snd (h m w)) hs (world b1)
   \<and> event_handlers (emit_event env event_type pl b) = event_handlers b
   \<and> sync_state (emit_event env event_type pl b) = sync_state b
   \<and> local_cache (emit_event env event_type pl b) = local_cache b
   \<and> shared_state (emit_event env event_type pl b) = shared_state b
   \<and> handlers_for (register_event_handler event_type h b) other
       = (if other = event_type then hs @ [h] else handlers_for b other)
   \<and> (register_event_handler event_type h b)\<lparr>event_handlers := event_handlers b\<rparr> = b"
proof -
  obtain m b1 where mb: "new_message env event_type pl b = (m, b1)"
    by (cases "new_message env event_type pl b")
  have b1: "message_queue b1 = message_queue b" "trace b1 = trace b"
    "event_handlers b1 = event_handlers b"
    and m: "msg_type m = event_type" "payload m = pl" "source m = ''python''"
    using mb by (auto simp: new_message_def datetime_now_def split: prod.splits)
  define b2 where "b2 = b1\<lparr>message_queue := message_queue b1 @ [m], trace := trace b1 @ [Queued m]\<rparr>"
  define hs where "hs = handlers_for b event_type"
  define new where "new = concat (map (\<lambda>k.
       case fst ((hs ! k) m (fold (\<lambda>h w. snd (h m w)) (take k hs) (world b1))) of
         None \<Rightarrow> [Handled k m None]
       | Some e \<Rightarrow> [Handled k m (Some e), Logged (Error_event_handler e)])
     [0..<length hs])"
  have emit: "emit_event env event_type pl b = call_handlers m hs 0 b2"
    by (simp add: emit_event_def mb b2_def Let_def handlers_for_def hs_def b1 split: option.splits)
  have tr: "trace (emit_event env event_type pl b) = (trace b @ [Queued m]) @ new"
    unfolding emit call_handlers_effects new_def by (simp add: b2_def b1 cong: option.case_cong)
  obtain new' where new':
    "trace (call_handlers m hs 0 b2) = trace b2 @ new'"
    "handled_calls new' = map (\<lambda>j. (j, m)) [0..<0 + length hs]"
    using call_handlers_trace [of m hs 0 b2] by blast
  have same: "new' = new"
    using new'(1) tr by (simp add: emit b2_def b1)
  have hc: "handled_calls new = map (\<lambda>j. (j, m)) [0..<length hs]"
    using new'(2) same by simp
  have w: "world (emit_event env event_type pl b) = fold (\<lambda>h w. snd (h m w)) hs (world b1)"
    by (simp add: emit call_handlers_world b2_def)
  have reg: "handlers_for (register_event_handler event_type h b) other
       = (if other = event_type then hs @ [h] else handlers_for b other)"
    by (simp add: register_event_handler_def handlers_for_def hs_def update_conv')
  have reg2: "(register_event_handler event_type h b)\<lparr>event_handlers := event_handlers b\<rparr> = b"
    by (simp add: register_event_handler_def)
  have q: "message_queue (emit_event env event_type pl b) = message_queue b @ [m]"
    by (simp add: emit b2_def b1)
  have fr: "event_handlers (emit_event env event_type pl b) = event_handlers b"
    "sync_state (emit_event env event_type pl b) = sync_state b"
    "local_cache (emit_event env event_type pl b) = local_cache b"
    "shared_state (emit_event env event_type pl b) = shared_state b"
    by simp_all
  have tr2: "trace (emit_event env event_type pl b) = trace b @ Queued m # new"
    using tr by simp
  have tk: "take (Suc (length (trace b))) (trace (emit_event env event_type pl b))
       = trace b @ [Queued m]"
    by (simp add: tr)
  have dr: "drop (Suc (length (trace b))) (trace (emit_event env event_type pl b)) = new"
    by (simp add: tr)
  show ?thesis
    unfolding mb prod.case Let_def hs_def [symmetric] dr tk
    by (simp only: m q tr2 [unfolded new_def] hc w fr reg reg2 simp_thms)
qed

text \<open>A handler that raises does not keep the next one from being called: with
  \<open>failing_handler\<close> registered before \<open>counting_handler\<close>, the exception of the first
  is logged and the second is called with the same message.\<close>

theorem emit_event_delivers_witness:
  "trace (emit_event demo_env ''ping'' (PInt 7) two_handlers_bridge)
     = (let m = \<lparr>msg_type = ''ping'', timestamp = Naive 1, source = ''python'',
                 payload = PInt 7, message_id = ''python_0''\<rparr>
        in [Queued m, Handled 0 m (Some (ValueError ''boom'')),
            Logged (Error_event_handler (ValueError ''boom'')), Handled 1 m None])
   \<and> world (emit_event demo_env ''ping'' (PInt 7) two_handlers_bridge) = 1012"
proof -
  define m where "m = \<lparr>msg_type = ''ping'', timestamp = Naive 1, source = ''python'',
                 payload = PInt 7, message_id = ''python_0''\<rparr>"
  have hs: "handlers_for two_handlers_bridge ''ping'' = [failing_handler, counting_handler]"
    by (simp add: two_handlers_bridge_def register_event_handler_def handlers_for_def
        demo_bridge_eq)
  have tr: "trace two_handlers_bridge = []" and w: "world two_handlers_bridge = 1"
    by (simp_all add: two_handlers_bridge_def register_event_handler_def demo_bridge_eq)
  have nm: "new_message demo_env ''ping'' (PInt 7) two_handlers_bridge
      = (m, two_handlers_bridge\<lparr>world := 2\<rparr>)"
    by (simp add: new_message_def datetime_now_def demo_env_def w m_def str_int_def)
  have upt: "[0..<Suc (Suc 0)] = [0, Suc 0]"
    by (simp add: upt_rec)
  from emit_event_delivers [where env = demo_env and event_type = "''ping''" and pl = "PInt 7"
      and b = two_handlers_bridge]
  show ?thesis
    unfolding nm prod.case Let_def hs m_def [symmetric]
    by (simp add: tr upt failing_handler_def counting_handler_def)
qed

section \<open>What each method leaves unchanged\<close>

lemma emit_event_queue:
  "message_queue (emit_event env ty pl b) = message_queue b @ [fst (new_message env ty pl b)]"
  by (simp add: emit_event_def new_message_eq Let_def split: option.splits)

lemma emit_event_trace:
  "\<exists>new. trace (emit_event env ty pl b) = trace b @ Queued (fst (new_message env ty pl b)) # new
     \<and> queued new = [] \<and> remote_calls new = []
     \<and> set (logged new) \<subseteq> range Error_event_handler"
proof (cases "map_of (event_handlers b) ty")
  case None
  then show ?thesis
    by (simp add: emit_event_def new_message_eq Let_def)
next
  case (Some hs)
  define m where "m = fst (new_message env ty pl b)"
  define b2 where "b2 = (snd (new_message env ty pl b))
     \<lparr>message_queue := message_queue b @ [m], trace := trace b @ [Queued m]\<rparr>"
  have emit: "emit_event env ty pl b = call_handlers m hs 0 b2"
    using Some by (simp add: emit_event_def new_message_eq Let_def m_def b2_def)
  from call_handlers_trace [of m hs 0 b2] obtain new where
    "trace (call_handlers m hs 0 b2) = trace b2 @ new" "queued new = []"
    "remote_calls new = []" "set (logged new) \<subseteq> range Error_event_handler"
    by blast
  moreover have "trace b2 = trace b @ [Queued m]"
    by (simp add: b2_def)
  ultimately show ?thesis
    unfolding emit m_def [symmetric] by auto
qed

lemma save_shared_state_result [simp]: "fst (save_shared_state env b) = Inr ()"
  by (simp add: save_shared_state_def datetime_now_eq Let_def)

lemma save_shared_state_fields [simp]:
  "sync_state (snd (save_shared_state env b)) = sync_state b"
  "local_cache (snd (save_shared_state env b)) = local_cache b"
  "message_queue (snd (save_shared_state env b)) = message_queue b"
  "event_handlers (snd (save_shared_state env b)) = event_handlers b"
  "file_writable (snd (save_shared_state env b)) = file_writable b"
  "auto_sync (snd (save_shared_state env b)) = auto_sync b"
  "bidirectional (snd (save_shared_state env b)) = bidirectional b"
  "sync_interval (snd (save_shared_state env b)) = sync_interval b"
  by (simp_all add: save_shared_state_def datetime_now_eq Let_def)

lemma save_shared_state_trace:
  "trace (snd (save_shared_state env b)) =
     trace b @ [Logged (if file_writable b then Debug_state_saved else Error_could_not_save OSError)]"
  by (simp add: save_shared_state_def datetime_now_eq Let_def)

lemma cache_export_fields:
  assumes "cache_export env cid d b = (r, b1)"
  shows "sync_state b1 = sync_state b" "shared_state b1 = shared_state b"
    "message_queue b1 = message_queue b" "trace b1 = trace b"
    "event_handlers b1 = event_handlers b"
    "r = Inl e \<Longrightarrow> local_cache b1 = local_cache b"
  using assms
  by (auto simp: cache_export_def datetime_now_eq Let_def split: sum.splits)

lemma export_body_failure:
  assumes "export_collection_body env cid b = (Inl e, b1)"
  shows "local_cache b1 = local_cache b \<and> message_queue b1 = message_queue b
    \<and> sync_state b1 = sync_state b \<and> shared_state b1 = shared_state b
    \<and> event_handlers b1 = event_handlers b
    \<and> (\<exists>r. trace b1 = trace b @ [Remote Get_collections r])"
proof -
  obtain r w where gc: "get_collections env (world b) = (r, w)"
    by (cases "get_collections env (world b)")
  define b0 where "b0 = b\<lparr>world := w, trace := trace b @ [Remote Get_collections (exn_of r)]\<rparr>"
  have b0: "local_cache b0 = local_cache b" "message_queue b0 = message_queue b"
    "sync_state b0 = sync_state b" "shared_state b0 = shared_state b"
    "event_handlers b0 = event_handlers b"
    "trace b0 = trace b @ [Remote Get_collections (exn_of r)]"
    by (simp_all add: b0_def)
  show ?thesis
  proof (cases r)
    case (Inl x)
    then have "b1 = b0" using assms gc
      by (auto simp: export_collection_body_def b0_def Let_def)
    then show ?thesis using b0 by simp
  next
    case (Inr cs)
    show ?thesis
    proof (cases "find (\<lambda>c. collection_id c = cid) cs")
      case None
      then have "b1 = b0" using assms gc Inr
        by (auto simp: export_collection_body_def b0_def Let_def)
      then show ?thesis using b0 by simp
    next
      case (Some target)
      define b2 where "b2 = snd (datetime_now env b0)"
      have b2: "local_cache b2 = local_cache b" "message_queue b2 = message_queue b"
        "sync_state b2 = sync_state b" "shared_state b2 = shared_state b"
        "event_handlers b2 = event_handlers b"
        "trace b2 = trace b @ [Remote Get_collections (exn_of r)]"
        using b0 by (simp_all add: b2_def datetime_now_eq)
      have "b1 = b2 \<or> (\<exists>d. cache_export env cid d b2 = (Inl e, b1))"
        using assms gc Inr Some
        unfolding export_collection_body_def b2_def b0_def
        by (auto simp: Let_def datetime_now_eq split: sum.splits prod.splits option.splits)
      then show ?thesis
      proof
        assume "b1 = b2"
        then show ?thesis using b2 by simp
      next
        assume "\<exists>d. cache_export env cid d b2 = (Inl e, b1)"
        then obtain d where "cache_export env cid d b2 = (Inl e, b1)" ..
        from cache_export_fields [OF this] show ?thesis using b2 by simp
      qed
    qed
  qed
qed

section \<open>A failed export leaves no partial state\<close>

lemma events_append [simp]: "events (xs @ ys) = events xs @ events ys"
  by (induction xs rule: events.induct) simp_all

text \<open>
  Claim C4. If \<open>export_collection_for_python\<close> raises, the cache map, the message
  queue, the sync state and the state file are as before, and no event was published (no
  message queued, no handler called); and an exception of the client's
  \<open>get_collections\<close> is the exception the export raises.
\<close>

theorem export_failure_changes_nothing:
  "(\<forall>e b1. export_collection_for_python env cid b = (Inl e, b1) \<longrightarrow>
       local_cache b1 = local_cache b
     \<and> message_queue b1 = message_queue b
     \<and> events (trace b1) = events (trace b)
     \<and> sync_state b1 = sync_state b
     \<and> shared_state b1 = shared_state b)
   \<and> (\<forall>e w. get_collections env (world b) = (Inl e, w) \<longrightarrow>
        fst (export_collection_for_python env cid b) = Inl e)"
proof (intro conjI allI impI)
  fix e b1
  assume a: "export_collection_for_python env cid b = (Inl e, b1)"
  then obtain b0 where body: "export_collection_body env cid b = (Inl e, b0)"
    and b1: "b1 = log (Error_export_failed e) b0"
    by (auto simp: export_collection_for_python_def split: prod.splits sum.splits)
  from export_body_failure [OF body] b1
  show "local_cache b1 = local_cache b" "message_queue b1 = message_queue b"
    "events (trace b1) = events (trace b)" "sync_state b1 = sync_state b"
    "shared_state b1 = shared_state b"
    by auto
next
  fix e w
  assume "get_collections env (world b) = (Inl e, w)"
  then show "fst (export_collection_for_python env cid b) = Inl e"
    by (simp add: export_collection_for_python_def export_collection_body_def Let_def)
qed

text \<open>With the store unreachable, the export of \<open>c1\<close> raises the client's error
  and leaves the bridge as it was, two entries of the trace apart.\<close>

theorem export_failure_changes_nothing_witness:
  "export_collection_for_python offline_env ''c1'' demo_bridge =
     (Inl (MysticalAPIError ''offline''),
      demo_bridge\<lparr>trace := [Remote Get_collections (Some (MysticalAPIError ''offline'')),
                             Logged (Error_export_failed (MysticalAPIError ''offline''))]\<rparr>)
   \<and> local_cache demo_bridge = PDict [] \<and> message_queue demo_bridge = []"
proof -
  have run: "export_collection_for_python offline_env ''c1'' demo_bridge =
     (Inl (MysticalAPIError ''offline''),
      demo_bridge\<lparr>trace := [Remote Get_collections (Some (MysticalAPIError ''offline'')),
                             Logged (Error_export_failed (MysticalAPIError ''offline''))]\<rparr>)"
    by (simp add: export_collection_for_python_def export_collection_body_def offline_env_def
        demo_env_def demo_bridge_eq log_def)
  have gc: "get_collections offline_env (world demo_bridge) = (Inl (MysticalAPIError ''offline''), 1)"
    by (simp add: offline_env_def demo_env_def demo_bridge_eq)
  from export_failure_changes_nothing [of offline_env "''c1''" demo_bridge] run gc
  show ?thesis
    by (simp add: demo_bridge_eq)
qed

section \<open>A successful export caches one entry\<close>

lemma sum_update_count:
  "sum_list (map snd (AList.update k ((case map_of cs k of None \<Rightarrow> 0 | Some n \<Rightarrow> n) + 1) cs))
     = sum_list (map snd cs) + (1 :: int)"
  by (induction cs) auto

lemma export_entry_counts:
  assumes "export_entry e v = Inr v1"
  shows "sum_list (map snd (categories v1)) = sum_list (map snd (categories v)) + 1"
    and "length (exported v1) = length (exported v) + 1"
  using assms sum_update_count [of "category e" "categories v"]
  by (auto simp: export_entry_def Let_def split: option.splits attr.splits)

lemma export_loop_counts:
  assumes "export_loop es v = Inr v1"
  shows "sum_list (map snd (categories v1)) = sum_list (map snd (categories v)) + int (length es)
     \<and> length (exported v1) = length (exported v) + length es"
  using assms
proof (induction es arbitrary: v)
  case Nil
  then show ?case by simp
next
  case (Cons e es)
  then obtain v0 where v0: "export_entry e v = Inr v0" and rest: "export_loop es v0 = Inr v1"
    by (auto split: sum.splits)
  from Cons.IH [OF rest] export_entry_counts [OF v0] show ?case by simp
qed

lemma values_total_categories:
  "values_total (PDict (map (map_prod id PInt) cs)) = sum_list (map snd cs)"
  by (induction cs) auto

lemma cache_export_success:
  assumes "cache_export env cid d b = (Inr u, b1)"
  shows "\<exists>kvs t1 w1 t2 w2.
      local_cache b = PDict kvs
    \<and> local_cache b1 = PDict (AList.update (''collection_export_'' @ cid)
         (PDict [(''data'', d),
                 (''exported_at'', PStr (isoformat env (Naive t1))),
                 (''expires_at'', PStr (isoformat env (plus_hours (Naive t2) 1)))]) kvs)
    \<and> now env (world b) = (t1, w1) \<and> now env w1 = (t2, w2)"
proof -
  obtain t1 w1 where n1: "now env (world b) = (t1, w1)" by (cases "now env (world b)")
  obtain t2 w2 where n2: "now env w1 = (t2, w2)" by (cases "now env w1")
  from assms obtain kvs where "local_cache b = PDict kvs"
    by (cases "local_cache b") (auto simp: cache_export_def datetime_now_eq Let_def n1 n2)
  then show ?thesis
    using assms n1 n2 by (auto simp: cache_export_def datetime_now_eq Let_def)
qed

lemma export_body_success:
  assumes "export_collection_body env cid b = (Inr d, b1)"
  shows "\<exists>c t v dr b2 b3.
      d = export_data_of env c t v dr
    \<and> export_loop (entries c) \<lparr>exported = [], total_size = 0, categories = [],
         all_key_terms = [], dates = []\<rparr> = Inr v
    \<and> local_cache b2 = local_cache b
    \<and> cache_export env cid d b2 = (Inr (), b3)
    \<and> local_cache b1 = local_cache b3"
proof -
  obtain r w where gc: "get_collections env (world b) = (r, w)"
    by (cases "get_collections env (world b)")
  define b0 where "b0 = b\<lparr>world := w, trace := trace b @ [Remote Get_collections (exn_of r)]\<rparr>"
  define t where "t = Naive (fst (now env (world b0)))"
  define b2 where "b2 = b0\<lparr>world := snd (now env (world b0))\<rparr>"
  let ?v0 = "\<lparr>exported = [], total_size = 0, categories = [], all_key_terms = [], dates = []\<rparr>"
  note defs = export_collection_body_def Let_def datetime_now_eq gc
  from assms obtain cs where r: "r = Inr cs"
    by (cases r) (auto simp: defs)
  from assms r obtain c where c: "find (\<lambda>c. collection_id c = cid) cs = Some c"
    by (cases "find (\<lambda>c. collection_id c = cid) cs") (auto simp: defs)
  from assms r c obtain v where v: "export_loop (entries c) ?v0 = Inr v"
    by (cases "export_loop (entries c) ?v0") (auto simp: defs)
  from assms r c v obtain dr where dr: "date_range env (dates v) = Inr dr"
    by (cases "date_range env (dates v)") (auto simp: defs)
  obtain r3 b3 where ce: "cache_export env cid (export_data_of env c t v dr) b2 = (r3, b3)"
    by (cases "cache_export env cid (export_data_of env c t v dr) b2")
  from assms r c v dr ce have d: "d = export_data_of env c t v dr" and r3: "r3 = Inr ()"
    and b1: "b1 = emit_event env ''collection_exported''
             (PDict [(''collection_id'', PStr cid),
                     (''entry_count'', PInt (int (length (exported v)))),
                     (''total_size'', PInt (total_size v))]) b3"
    by (cases r3; simp add: defs t_def b2_def b0_def)+
  have "local_cache b2 = local_cache b"
    by (simp add: b2_def b0_def)
  moreover have "local_cache b1 = local_cache b3"
    by (simp add: b1)
  ultimately show ?thesis
    using d v ce r3 by blast
qed

text \<open>
  Claim C3, as the code has it. A successful export writes one entry into the cache map,
  under the key \<open>collection_export_\<close> followed by the id: the map is the old one
  updated at that key. The entry holds the exported data, \<open>exported_at\<close>, which is a
  reading \<open>t1\<close> of the clock, and \<open>expires_at\<close>, which is the next reading \<open>t2\<close> of
  the clock plus one hour: one hour after \<open>exported_at\<close> exactly when the clock has not
  moved between the two readings. The values of the category histogram of the exported
  metadata sum to the number of exported entries.
\<close>

theorem export_success_caches_one_entry:
  assumes "export_collection_for_python env cid b = (Inr d, b1)"
  shows "\<exists>kvs w t1 w1 t2 w2 meta hist ents.
      local_cache b = PDict kvs
    \<and> local_cache b1 = PDict (AList.update (''collection_export_'' @ cid)
         (PDict [(''data'', d),
                 (''exported_at'', PStr (isoformat env (Naive t1))),
                 (''expires_at'', PStr (isoformat env (plus_hours (Naive t2) 1)))]) kvs)
    \<and> now env w = (t1, w1) \<and> now env w1 = (t2, w2)
    \<and> py_getitem d ''metadata'' = Inr meta
    \<and> py_getitem meta ''categories'' = Inr hist
    \<and> py_getitem d ''entries'' = Inr (PList ents)
    \<and> values_total hist = int (length ents)"
proof -
  from assms have "export_collection_body env cid b = (Inr d, b1)"
    by (auto simp: export_collection_for_python_def split: prod.splits sum.splits)
  from export_body_success [OF this] obtain c t v dr b2 b3 where
    d: "d = export_data_of env c t v dr"
    and loop: "export_loop (entries c) \<lparr>exported = [], total_size = 0, categories = [],
         all_key_terms = [], dates = []\<rparr> = Inr v"
    and b2: "local_cache b2 = local_cache b"
    and ce: "cache_export env cid d b2 = (Inr (), b3)"
    and b3: "local_cache b1 = local_cache b3"
    by blast
  from cache_export_success [OF ce] obtain kvs t1 w1 t2 w2 where
    c2: "local_cache b2 = PDict kvs"
    and c3: "local_cache b3 = PDict (AList.update (''collection_export_'' @ cid)
         (PDict [(''data'', d),
                 (''exported_at'', PStr (isoformat env (Naive t1))),
                 (''expires_at'', PStr (isoformat env (plus_hours (Naive t2) 1)))]) kvs)"
    and n1: "now env (world b2) = (t1, w1)" and n2: "now env w1 = (t2, w2)"
    by blast
  define meta where "meta = PDict
         [(''total_size'', PInt (total_size v)),
          (''categories'', PDict (map (map_prod id PInt) (categories v))),
          (''key_terms'', PList (map PStr (list_of_set env (all_key_terms v)))),
          (''date_range'', dr)]"
  define hist where "hist = PDict (map (map_prod id PInt) (categories v))"
  have total: "values_total hist = int (length (exported v))"
    unfolding hist_def using export_loop_counts [OF loop]
    by (simp only: values_total_categories) simp
  have g1: "py_getitem d ''metadata'' = Inr meta"
    and g3: "py_getitem d ''entries'' = Inr (PList (exported v))"
    by (simp_all add: d export_data_of_def meta_def)
  have g2: "py_getitem meta ''categories'' = Inr hist"
    by (simp add: meta_def hist_def)
  have k: "local_cache b = PDict kvs"
    using b2 c2 by simp
  have k1: "local_cache b1 = PDict (AList.update (''collection_export_'' @ cid)
         (PDict [(''data'', d),
                 (''exported_at'', PStr (isoformat env (Naive t1))),
                 (''expires_at'', PStr (isoformat env (plus_hours (Naive t2) 1)))]) kvs)"
    using b3 c3 by simp
  from k k1 n1 n2 g1 g2 g3 total show ?thesis
    by blast
qed

lemma demo_export_run_fst: "\<exists>d. fst demo_export_run = Inr d"
  unfolding demo_export_run_def export_collection_for_python_def export_collection_body_def
  by (simp add: demo_env_def demo_bridge_eq demo_collection_def demo_entry_def
      export_entry_def datetime_now_eq date_range_def Let_def cache_export_def)

lemma demo_run_pair:
  "export_collection_for_python demo_env ''c1'' demo_bridge
     = (Inr (projr (fst demo_export_run)), snd demo_export_run)"
proof -
  from demo_export_run_fst obtain d where d: "fst demo_export_run = Inr d" ..
  have "demo_export_run = (fst demo_export_run, snd demo_export_run)"
    by simp
  then show ?thesis
    unfolding d by (simp add: demo_export_run_def)
qed

lemma demo_stamps:
  "demo_isoformat_sep ''T'' (Naive 1) = ''1970-01-01T00:00:00.000001''"
  "demo_isoformat_sep ''T'' (Naive 2) = ''1970-01-01T00:00:00.000002''"
  "demo_isoformat_sep ''T'' (Naive 5) = ''1970-01-01T00:00:00.000005''"
  "demo_isoformat_sep ''T'' (Naive 3600000003) = ''1970-01-01T01:00:00.000003''"
  by code_simp+

lemma demo_parse:
  "fromisoformat demo_env ''1970-01-01T00:00:00.000002'' = Some (Naive 2)"
  "fromisoformat demo_env ''1970-01-01T01:00:00.000003'' = Some (Naive 3600000003)"
  by code_simp+

lemma demo_cached:
  "py_getitem (local_cache (snd demo_export_run)) ''collection_export_c1'' =
     Inr (PDict [(''data'', projr (fst demo_export_run)),
                 (''exported_at'', PStr ''1970-01-01T00:00:00.000002''),
                 (''expires_at'', PStr ''1970-01-01T01:00:00.000003'')])"
  unfolding demo_export_run_def export_collection_for_python_def export_collection_body_def
  by (simp add: demo_env_def demo_bridge_eq demo_collection_def demo_entry_def
      export_entry_def datetime_now_eq date_range_def Let_def cache_export_def
      demo_stamps)

text \<open>
  On the example clock, which advances by a microsecond at every reading, the entry
  cached for \<open>c1\<close> has \<open>exported_at\<close> at 2 microseconds past midnight and
  \<open>expires_at\<close> at one hour and 3 microseconds: not \<open>exported_at\<close> plus one hour.
\<close>

theorem export_expiry_counterexample:
  "py_getitem (local_cache (snd demo_export_run)) ''collection_export_c1'' =
     Inr (PDict [(''data'', projr (fst demo_export_run)),
                 (''exported_at'', PStr ''1970-01-01T00:00:00.000002''),
                 (''expires_at'', PStr ''1970-01-01T01:00:00.000003'')])
   \<and> fromisoformat demo_env ''1970-01-01T00:00:00.000002'' = Some (Naive 2)
   \<and> fromisoformat demo_env ''1970-01-01T01:00:00.000003'' = Some (Naive 3600000003)
   \<and> plus_hours (Naive 2) 1 \<noteq> Naive 3600000003"
  using demo_cached demo_parse by simp

lemma demo_histogram:
  "py_getitem (projr (py_getitem (projr (fst demo_export_run)) ''metadata'')) ''categories''
     = Inr (PDict [(''alchemy'', PInt 2), (''tarot'', PInt 1)])"
  unfolding demo_export_run_def export_collection_for_python_def export_collection_body_def
  by (simp add: demo_env_def demo_bridge_eq demo_collection_def demo_entry_def
      export_entry_def datetime_now_eq date_range_def Let_def cache_export_def
      export_data_of_def)

text \<open>The export of \<open>c1\<close> succeeds; its three entries fall into two categories.\<close>

theorem export_success_caches_one_entry_witness:
  "(\<exists>kvs w t1 w1 t2 w2 meta hist ents.
      local_cache demo_bridge = PDict kvs
    \<and> local_cache (snd demo_export_run) = PDict (AList.update (''collection_export_'' @ ''c1'')
         (PDict [(''data'', projr (fst demo_export_run)),
                 (''exported_at'', PStr (isoformat demo_env (Naive t1))),
                 (''expires_at'', PStr (isoformat demo_env (plus_hours (Naive t2) 1)))]) kvs)
    \<and> now demo_env w = (t1, w1) \<and> now demo_env w1 = (t2, w2)
    \<and> py_getitem (projr (fst demo_export_run)) ''metadata'' = Inr meta
    \<and> py_getitem meta ''categories'' = Inr hist
    \<and> py_getitem (projr (fst demo_export_run)) ''entries'' = Inr (PList ents)
    \<and> values_total hist = int (length ents))
   \<and> py_getitem (projr (py_getitem (projr (fst demo_export_run)) ''metadata'')) ''categories''
        = Inr (PDict [(''alchemy'', PInt 2), (''tarot'', PInt 1)])"
  using export_success_caches_one_entry [OF demo_run_pair] demo_histogram
  by simp

section \<open>Importing a batch stops at the first failure\<close>

lemma how_many_simps [simp]:
  "how_many P [] = 0"
  "how_many P (e # es) = (if P e then 1 else 0) + how_many P es"
  "how_many P (xs @ ys) = how_many P xs + how_many P ys"
  by (simp_all add: how_many_def)

lemma how_many_none: "list_all Q es \<Longrightarrow> (\<And>e. Q e \<Longrightarrow> \<not> P e) \<Longrightarrow> how_many P es = 0"
  by (induction es) auto

lemma call_handlers_delivery:
  "\<exists>new. trace (call_handlers m hs i b) = trace b @ new \<and> list_all is_delivery new"
proof (induction hs arbitrary: i b)
  case Nil
  then show ?case by simp
next
  case (Cons h hs)
  obtain r w where hw: "h m (world b) = (r, w)" by (cases "h m (world b)")
  define b2 where "b2 = (case r of
      None \<Rightarrow> b\<lparr>world := w, trace := trace b @ [Handled i m r]\<rparr>
    | Some e \<Rightarrow> log (Error_event_handler e) (b\<lparr>world := w, trace := trace b @ [Handled i m r]\<rparr>))"
  have step: "call_handlers m (h # hs) i b = call_handlers m hs (Suc i) b2"
    unfolding b2_def by (simp add: hw Let_def)
  obtain mid where mid: "trace b2 = trace b @ mid" "list_all is_delivery mid"
    by (cases r) (auto simp: b2_def)
  from Cons.IH [of "Suc i" b2] obtain new where
    "trace (call_handlers m hs (Suc i) b2) = trace b2 @ new" "list_all is_delivery new"
    by blast
  then show ?case
    using mid step by (intro exI [of _ "mid @ new"]) auto
qed

lemma emit_event_delivery:
  "\<exists>new. trace (emit_event env ty pl b) = trace b @ Queued (fst (new_message env ty pl b)) # new
     \<and> list_all is_delivery new"
proof (cases "map_of (event_handlers b) ty")
  case None
  then show ?thesis
    by (simp add: emit_event_def new_message_eq Let_def)
next
  case (Some hs)
  define m where "m = fst (new_message env ty pl b)"
  define b2 where "b2 = (snd (new_message env ty pl b))
     \<lparr>message_queue := message_queue b @ [m], trace := trace b @ [Queued m]\<rparr>"
  have emit: "emit_event env ty pl b = call_handlers m hs 0 b2"
    using Some by (simp add: emit_event_def new_message_eq Let_def m_def b2_def)
  from call_handlers_delivery [of m hs 0 b2] obtain new where
    "trace (call_handlers m hs 0 b2) = trace b2 @ new" "list_all is_delivery new"
    by blast
  moreover have "trace b2 = trace b @ [Queued m]"
    by (simp add: b2_def)
  ultimately show ?thesis
    unfolding emit m_def [symmetric] by auto
qed

lemma emit_event_how_many:
  assumes "\<And>m. \<not> P (Queued m)" and "\<And>e. is_delivery e \<Longrightarrow> \<not> P e"
  shows "how_many P (trace (emit_event env ty pl b)) = how_many P (trace b)"
proof -
  from emit_event_delivery [of env ty pl b] obtain new where
    "trace (emit_event env ty pl b) = trace b @ Queued (fst (new_message env ty pl b)) # new"
    "list_all is_delivery new"
    by blast
  then show ?thesis
    using assms how_many_none [of is_delivery new P] by simp
qed

lemma is_delivery_excludes:
  "is_delivery e \<Longrightarrow> \<not> is_created e"
  "is_delivery e \<Longrightarrow> \<not> is_skipped e"
  "is_delivery e \<Longrightarrow> \<not> is_import_failure e"
  "is_delivery e \<Longrightarrow> \<not> is_failed_write e"
  "is_delivery e \<Longrightarrow> \<not> is_remote e"
  by (induction e rule: is_delivery.induct; simp)+

lemma emit_event_counts [simp]:
  "how_many is_created (trace (emit_event env ty pl b)) = how_many is_created (trace b)"
  "how_many is_skipped (trace (emit_event env ty pl b)) = how_many is_skipped (trace b)"
  "how_many is_import_failure (trace (emit_event env ty pl b)) = how_many is_import_failure (trace b)"
  "how_many is_failed_write (trace (emit_event env ty pl b)) = how_many is_failed_write (trace b)"
  "how_many is_remote (trace (emit_event env ty pl b)) = how_many is_remote (trace b)"
  by (rule emit_event_how_many; simp add: is_delivery_excludes)+

lemma import_loop_fields:
  assumes "import_loop env items ids b = (err, ids1, b1)"
  shows "sync_state b1 = sync_state b \<and> shared_state b1 = shared_state b
     \<and> local_cache b1 = local_cache b \<and> message_queue b1 = message_queue b
     \<and> event_handlers b1 = event_handlers b \<and> file_writable b1 = file_writable b
     \<and> queued (trace b1) = queued (trace b)
     \<and> how_many is_import_failure (trace b1) = how_many is_import_failure (trace b)
     \<and> how_many is_failed_write (trace b1) = how_many is_failed_write (trace b)"
  using assms
proof (induction items arbitrary: ids b)
  case Nil
  then show ?case by simp
next
  case (Cons x xs)
  show ?case
    using Cons.prems
    by (auto simp: Let_def split: sum.splits if_splits prod.splits dest!: Cons.IH)
qed

lemma import_loop_counts:
  assumes "import_loop env items ids b = (err, ids1, b1)"
  shows "length ids1 + how_many is_created (trace b) = length ids + how_many is_created (trace b1)
     \<and> (case err of
          None \<Rightarrow> how_many is_created (trace b1) + how_many is_skipped (trace b1)
                   = how_many is_created (trace b) + how_many is_skipped (trace b) + length items
        | Some e \<Rightarrow> how_many is_created (trace b1) + how_many is_skipped (trace b1)
                   < how_many is_created (trace b) + how_many is_skipped (trace b) + length items)"
  using assms
proof (induction items arbitrary: ids b)
  case Nil
  then show ?case by simp
next
  case (Cons x xs)
  show ?case
    using Cons.prems
    by (auto simp: Let_def split: sum.splits if_splits prod.splits option.splits dest!: Cons.IH)
qed

lemma import_remaining_start:
  "import_python_annotations env (PList items) b = import_remaining env items [] b"
  by (simp add: import_python_annotations_def import_remaining_def)

lemma import_remaining_end:
  "import_remaining env [] ids b =
     (Inr ids,
      log (Info_imported (length ids))
        (emit_event env ''annotations_imported''
           (PDict [(''count'', PInt (int (length ids))),
                   (''annotation_ids'', PList (map PStr ids))]) b))"
  by (simp add: import_remaining_def)

lemma import_remaining_skip:
  assumes "has_all_keys [''entryId'', ''content'', ''authorName''] x = Inr False"
  shows "import_remaining env (x # rest) ids b
     = import_remaining env rest ids (log (Warning_skipping_annotation x) b)"
  using assms by (simp add: import_remaining_def)

lemma import_remaining_created:
  assumes "has_all_keys [''entryId'', ''content'', ''authorName''] x = Inr True"
    and "py_getitem x ''entryId'' = Inr e" and "py_getitem x ''content'' = Inr c"
    and "py_get x ''authorName'' (PStr ''Python Bridge'') = Inr a"
    and "create_annotation env e c a (world b) = (Inr new_id, w)"
  shows "import_remaining env (x # rest) ids b
     = import_remaining env rest (ids @ [new_id])
         (b\<lparr>world := w, trace := trace b @ [Remote (Create_annotation e c a) None]\<rparr>)"
  using assms by (simp add: import_remaining_def)

lemma import_remaining_refused:
  assumes "has_all_keys [''entryId'', ''content'', ''authorName''] x = Inr True"
    and "py_getitem x ''entryId'' = Inr e" and "py_getitem x ''content'' = Inr c"
    and "py_get x ''authorName'' (PStr ''Python Bridge'') = Inr a"
    and "create_annotation env e c a (world b) = (Inl err, w)"
  shows "import_remaining env (x # rest) ids b
     = (Inr ids, log (Error_import_failed err)
         (b\<lparr>world := w, trace := trace b @ [Remote (Create_annotation e c a) (Some err)]\<rparr>))"
  using assms by (simp add: import_remaining_def)

lemma import_remaining_unreadable:
  assumes "has_all_keys [''entryId'', ''content'', ''authorName''] x = Inl err
     \<or> has_all_keys [''entryId'', ''content'', ''authorName''] x = Inr True
       \<and> py_getitem x ''entryId'' = Inl err"
  shows "import_remaining env (x # rest) ids b = (Inr ids, log (Error_import_failed err) b)"
  using assms by (auto simp: import_remaining_def)

lemma valid_item_fields:
  assumes "has_all_keys [''entryId'', ''content'', ''authorName''] x = Inr True"
    and "py_getitem x ''entryId'' = Inr e"
  shows "\<exists>c a. py_getitem x ''content'' = Inr c
     \<and> py_get x ''authorName'' (PStr ''Python Bridge'') = Inr a"
proof (cases x)
  case (PDict kvs)
  have key: "\<exists>v. map_of kvs k = Some v" if "k \<in> set (map fst kvs)" for k
    using that by (cases "map_of kvs k") (auto simp: map_of_eq_None_iff)
  from assms(1) have "''content'' \<in> set (map fst kvs)" "''authorName'' \<in> set (map fst kvs)"
    by (simp_all add: PDict split: if_splits)
  then obtain c a where "map_of kvs ''content'' = Some c" "map_of kvs ''authorName'' = Some a"
    using key by blast
  then show ?thesis
    by (simp add: PDict)
qed (use assms in simp_all)


text \<open>
  Claim C1, as the code has it. On a list \<open>import_python_annotations\<close> is
  \<open>import_remaining\<close> from the whole list with no identifier yet, and never raises.
  What it does with the next item is one of four things.
  An item without one of the three required keys is skipped: a warning is logged, the
  store is not called, and the method goes on with the items that are left.
  A valid item is sent to the store with its three fields; when the store returns, the
  call is recorded, the new identifier is appended and the method goes on.
  When the store raises, the call is recorded, the exception is logged and the method
  returns the identifiers it has so far: the items that are left are not attempted and
  no event is published.
  When validating or reading the item raises, the exception is logged and the method
  returns the identifiers it has so far, without any call.
  A valid item whose \<open>entryId\<close> can be read has its other two fields, so these are
  all the cases. With no item left the event \<open>annotations_imported\<close> is published
  with the count and the identifiers, and the count is logged.
  In numbers: one identifier for each call that returned; as long as no failure is
  logged, created plus skipped is the length of the batch; after the one failure it is
  less, and nothing was published.
\<close>

theorem import_counts_until_first_failure:
  "import_python_annotations env (PList items) b = import_remaining env items [] b
   \<and> import_remaining env [] ids b =
       (Inr ids,
        log (Info_imported (length ids))
          (emit_event env ''annotations_imported''
             (PDict [(''count'', PInt (int (length ids))),
                     (''annotation_ids'', PList (map PStr ids))]) b))
   \<and> (has_all_keys [''entryId'', ''content'', ''authorName''] invalid = Inr False \<longrightarrow>
        import_remaining env (invalid # rest) ids b
          = import_remaining env rest ids (log (Warning_skipping_annotation invalid) b))
   \<and> (has_all_keys [''entryId'', ''content'', ''authorName''] accepted = Inr True
        \<and> py_getitem accepted ''entryId'' = Inr e \<and> py_getitem accepted ''content'' = Inr c
        \<and> py_get accepted ''authorName'' (PStr ''Python Bridge'') = Inr a
        \<and> create_annotation env e c a (world b) = (Inr new_id, w) \<longrightarrow>
        import_remaining env (accepted # rest) ids b
          = import_remaining env rest (ids @ [new_id])
              (b\<lparr>world := w, trace := trace b @ [Remote (Create_annotation e c a) None]\<rparr>))
   \<and> (has_all_keys [''entryId'', ''content'', ''authorName''] refused = Inr True
        \<and> py_getitem refused ''entryId'' = Inr e' \<and> py_getitem refused ''content'' = Inr c'
        \<and> py_get refused ''authorName'' (PStr ''Python Bridge'') = Inr a'
        \<and> create_annotation env e' c' a' (world b) = (Inl err, w') \<longrightarrow>
        import_remaining env (refused # rest) ids b
          = (Inr ids,
             log (Error_import_failed err)
               (b\<lparr>world := w',
                  trace := trace b @ [Remote (Create_annotation e' c' a') (Some err)]\<rparr>)))
   \<and> (has_all_keys [''entryId'', ''content'', ''authorName''] unreadable = Inl err'
        \<or> has_all_keys [''entryId'', ''content'', ''authorName''] unreadable = Inr True
          \<and> py_getitem unreadable ''entryId'' = Inl err' \<longrightarrow>
        import_remaining env (unreadable # rest) ids b
          = (Inr ids, log (Error_import_failed err') b))
   \<and> (has_all_keys [''entryId'', ''content'', ''authorName''] accepted = Inr True
        \<and> py_getitem accepted ''entryId'' = Inr e \<longrightarrow>
        (\<exists>c a. py_getitem accepted ''content'' = Inr c
           \<and> py_get accepted ''authorName'' (PStr ''Python Bridge'') = Inr a))
   \<and> (case import_python_annotations env (PList items) b of (r, b1) \<Rightarrow>
       \<exists>ids. r = Inr ids
        \<and> how_many is_created (trace b1) = how_many is_created (trace b) + length ids
        \<and> (if how_many is_import_failure (trace b1) = how_many is_import_failure (trace b)
           then length ids + how_many is_skipped (trace b1)
                  = how_many is_skipped (trace b) + length items
           else how_many is_import_failure (trace b1) = how_many is_import_failure (trace b) + 1
              \<and> length ids + how_many is_skipped (trace b1)
                  < how_many is_skipped (trace b) + length items
              \<and> queued (trace b1) = queued (trace b)))"
proof -
  have counting: "case import_python_annotations env (PList items) b of (r, b1) \<Rightarrow>
       \<exists>ids. r = Inr ids
        \<and> how_many is_created (trace b1) = how_many is_created (trace b) + length ids
        \<and> (if how_many is_import_failure (trace b1) = how_many is_import_failure (trace b)
           then length ids + how_many is_skipped (trace b1)
                  = how_many is_skipped (trace b) + length items
           else how_many is_import_failure (trace b1) = how_many is_import_failure (trace b) + 1
              \<and> length ids + how_many is_skipped (trace b1)
                  < how_many is_skipped (trace b) + length items
              \<and> queued (trace b1) = queued (trace b))"
  proof -
    obtain err ids b0 where loop: "import_loop env items [] b = (err, ids, b0)"
      by (cases "import_loop env items [] b") auto
    note f = import_loop_fields [OF loop] and c = import_loop_counts [OF loop]
    show ?thesis
    proof (cases err)
      case None
      then show ?thesis
        using f c by (simp add: import_python_annotations_def loop)
    next
      case (Some e)
      then show ?thesis
        using f c by (simp add: import_python_annotations_def loop)
    qed
  qed
  show ?thesis
    using import_remaining_start [of env items b] import_remaining_end [of env ids b]
      import_remaining_skip [of invalid env rest ids b]
      import_remaining_created [of accepted e c a env b new_id w rest ids]
      import_remaining_refused [of refused e' c' a' env b err w' rest ids]
      import_remaining_unreadable [of unreadable err' env rest ids b]
      valid_item_fields [of accepted e] counting
    by blast
qed

lemma three_annotations_run:
  "fst (import_python_annotations demo_env three_annotations demo_bridge)
     = Inr [''note-on-e1'', ''note-on-e3'']"
  "remote_calls (trace (snd (import_python_annotations demo_env three_annotations demo_bridge)))
     = [(Create_annotation (PStr ''e1'') (PStr ''first note'') (PStr ''me''), None),
        (Create_annotation (PStr ''e3'') (PStr ''third note'') (PStr ''me''), None)]"
  "how_many is_skipped
     (trace (snd (import_python_annotations demo_env three_annotations demo_bridge))) = 1"
  "how_many is_import_failure
     (trace (snd (import_python_annotations demo_env three_annotations demo_bridge))) = 0"
  "trace demo_bridge = []"
  by code_simp+

lemma demo_items:
  "has_all_keys [''entryId'', ''content'', ''authorName'']
     (PDict [(''entryId'', PStr ''e2''), (''authorName'', PStr ''me'')]) = Inr False"
  "has_all_keys [''entryId'', ''content'', ''authorName''] (annotation e t) = Inr True"
  "py_getitem (annotation e t) ''entryId'' = Inr (PStr e)"
  "py_getitem (annotation e t) ''content'' = Inr (PStr t)"
  "py_get (annotation e t) ''authorName'' (PStr ''Python Bridge'') = Inr (PStr ''me'')"
  "has_all_keys [''entryId'', ''content'', ''authorName''] (PInt 5) = Inl TypeError"
  by (simp_all add: annotation_def)

lemma demo_store:
  "create_annotation demo_env (PStr ''e1'') (PStr ''first note'') (PStr ''me'') (world demo_bridge)
     = (Inr ''note-on-e1'', 1)"
  "create_annotation demo_env (PStr ''e1'') (PStr ''rejected'') (PStr ''me'') (world demo_bridge)
     = (Inl (MysticalAPIError ''rejected''), 1)"
  by (simp_all add: demo_env_def demo_bridge_eq)

text \<open>The four cases in the store of the examples, and the scenario of the
  specification: three records, the second without \<open>content\<close>. Two identifiers, one
  skipped, exactly two calls on the store.\<close>

theorem import_counts_until_first_failure_witness:
  "import_remaining demo_env
       [PDict [(''entryId'', PStr ''e2''), (''authorName'', PStr ''me'')],
        annotation ''e3'' ''third note''] [] demo_bridge
     = import_remaining demo_env [annotation ''e3'' ''third note''] []
         (log (Warning_skipping_annotation
            (PDict [(''entryId'', PStr ''e2''), (''authorName'', PStr ''me'')])) demo_bridge)
   \<and> import_remaining demo_env
       [annotation ''e1'' ''first note'', annotation ''e3'' ''third note''] [] demo_bridge
     = import_remaining demo_env [annotation ''e3'' ''third note''] [''note-on-e1'']
         (demo_bridge\<lparr>world := 1, trace := trace demo_bridge @
            [Remote (Create_annotation (PStr ''e1'') (PStr ''first note'') (PStr ''me'')) None]\<rparr>)
   \<and> import_remaining demo_env
       [annotation ''e1'' ''rejected'', annotation ''e3'' ''third note''] [] demo_bridge
     = (Inr [], log (Error_import_failed (MysticalAPIError ''rejected''))
         (demo_bridge\<lparr>world := 1, trace := trace demo_bridge @
            [Remote (Create_annotation (PStr ''e1'') (PStr ''rejected'') (PStr ''me''))
               (Some (MysticalAPIError ''rejected''))]\<rparr>))
   \<and> import_remaining demo_env [PInt 5, annotation ''e3'' ''third note''] [] demo_bridge
     = (Inr [], log (Error_import_failed TypeError) demo_bridge)
   \<and> (case import_python_annotations demo_env three_annotations demo_bridge of (r, b1) \<Rightarrow>
      r = Inr [''note-on-e1'', ''note-on-e3'']
    \<and> how_many is_created (trace b1) = 2
    \<and> how_many is_skipped (trace b1) = 1
    \<and> how_many is_import_failure (trace b1) = 0
    \<and> remote_calls (trace b1)
        = [(Create_annotation (PStr ''e1'') (PStr ''first note'') (PStr ''me''), None),
           (Create_annotation (PStr ''e3'') (PStr ''third note'') (PStr ''me''), None)])"
proof -
  note t = import_counts_until_first_failure [where env = demo_env and b = demo_bridge
      and items = "[annotation ''e1'' ''first note'',
        PDict [(''entryId'', PStr ''e2''), (''authorName'', PStr ''me'')],
        annotation ''e3'' ''third note'']"
      and ids = "[]" and rest = "[annotation ''e3'' ''third note'']"
      and invalid = "PDict [(''entryId'', PStr ''e2''), (''authorName'', PStr ''me'')]"
      and accepted = "annotation ''e1'' ''first note''"
      and e = "PStr ''e1''" and c = "PStr ''first note''" and a = "PStr ''me''"
      and new_id = "''note-on-e1''" and w = 1
      and refused = "annotation ''e1'' ''rejected''"
      and e' = "PStr ''e1''" and c' = "PStr ''rejected''" and a' = "PStr ''me''"
      and err = "MysticalAPIError ''rejected''" and w' = 1
      and unreadable = "PInt 5" and err' = TypeError]
  have laws: "import_remaining demo_env
       [PDict [(''entryId'', PStr ''e2''), (''authorName'', PStr ''me'')],
        annotation ''e3'' ''third note''] [] demo_bridge
     = import_remaining demo_env [annotation ''e3'' ''third note''] []
         (log (Warning_skipping_annotation
            (PDict [(''entryId'', PStr ''e2''), (''authorName'', PStr ''me'')])) demo_bridge)"
    "import_remaining demo_env
       [annotation ''e1'' ''first note'', annotation ''e3'' ''third note''] [] demo_bridge
     = import_remaining demo_env [annotation ''e3'' ''third note''] [''note-on-e1'']
         (demo_bridge\<lparr>world := 1, trace := trace demo_bridge @
            [Remote (Create_annotation (PStr ''e1'') (PStr ''first note'') (PStr ''me'')) None]\<rparr>)"
    "import_remaining demo_env
       [annotation ''e1'' ''rejected'', annotation ''e3'' ''third note''] [] demo_bridge
     = (Inr [], log (Error_import_failed (MysticalAPIError ''rejected''))
         (demo_bridge\<lparr>world := 1, trace := trace demo_bridge @
            [Remote (Create_annotation (PStr ''e1'') (PStr ''rejected'') (PStr ''me''))
               (Some (MysticalAPIError ''rejected''))]\<rparr>))"
    "import_remaining demo_env [PInt 5, annotation ''e3'' ''third note''] [] demo_bridge
     = (Inr [], log (Error_import_failed TypeError) demo_bridge)"
    using t demo_items demo_store by simp_all
  have counts: "case import_python_annotations demo_env three_annotations demo_bridge of (r, b1) \<Rightarrow>
      r = Inr [''note-on-e1'', ''note-on-e3'']
    \<and> how_many is_created (trace b1) = 2
    \<and> how_many is_skipped (trace b1) = 1
    \<and> how_many is_import_failure (trace b1) = 0
    \<and> remote_calls (trace b1)
        = [(Create_annotation (PStr ''e1'') (PStr ''first note'') (PStr ''me''), None),
           (Create_annotation (PStr ''e3'') (PStr ''third note'') (PStr ''me''), None)]"
    using t [THEN conjunct2, THEN conjunct2, THEN conjunct2, THEN conjunct2, THEN conjunct2,
        THEN conjunct2, THEN conjunct2] three_annotations_run
    by (auto simp: three_annotations_def split: prod.splits)
  show ?thesis
    using laws counts by (intro conjI)
qed

text \<open>
  Two valid records, the first refused by the store: nothing is created, nothing is
  skipped, one failure is logged, and the second record is never sent. \<open>0 + 0 + 1\<close>
  is not 2, and the failure of the first item has stopped the processing of the second.
\<close>

theorem import_stops_at_first_failure_counterexample:
  "fst (import_python_annotations demo_env rejected_then_fine demo_bridge) = Inr []
   \<and> trace (snd (import_python_annotations demo_env rejected_then_fine demo_bridge)) =
        [Remote (Create_annotation (PStr ''e1'') (PStr ''rejected'') (PStr ''me''))
           (Some (MysticalAPIError ''rejected'')),
         Logged (Error_import_failed (MysticalAPIError ''rejected''))]"
  by code_simp

section \<open>Importing what is not a list\<close>

lemma has_all_keys_string: "\<exists>valid. has_all_keys ks (PStr s) = Inr valid"
  by (induction ks) auto

lemma import_loop_strings:
  assumes "import_loop env items ids b = (err, ids1, b1)"
    and "\<forall>x\<in>set items. \<exists>s. x = PStr s"
  shows "ids1 = ids \<and> remote_calls (trace b1) = remote_calls (trace b)"
  using assms
proof (induction items arbitrary: b)
  case Nil
  then show ?case by simp
next
  case (Cons x xs)
  from Cons.prems(2) obtain s where x: "x = PStr s" by auto
  obtain valid where v: "has_all_keys [''entryId'', ''content'', ''authorName''] x = Inr valid"
    unfolding x using has_all_keys_string by blast
  show ?case
  proof (cases valid)
    case True
    then show ?thesis using Cons.prems(1) v by (simp add: x)
  next
    case False
    then have "import_loop env xs ids (log (Warning_skipping_annotation x) b) = (err, ids1, b1)"
      using Cons.prems(1) v by simp
    from Cons.IH [OF this] Cons.prems(2) show ?thesis by simp
  qed
qed

lemma emit_event_remote_calls [simp]:
  "remote_calls (trace (emit_event env ty pl b)) = remote_calls (trace b)"
  using emit_event_trace [of env ty pl b] by auto

lemma import_without_calls:
  assumes "py_iter v = Inr items" and "\<forall>x\<in>set items. \<exists>s. x = PStr s"
  shows "fst (import_python_annotations env v b) = Inr []
    \<and> remote_calls (trace (snd (import_python_annotations env v b))) = remote_calls (trace b)"
proof -
  obtain err ids b0 where loop: "import_loop env items [] b = (err, ids, b0)"
    by (cases "import_loop env items [] b") auto
  from import_loop_strings [OF loop assms(2)] show ?thesis
    by (cases err) (simp_all add: import_python_annotations_def assms(1) loop)
qed

text \<open>
  Claim C9, as the code has it. For an argument that is not a list (\<open>None\<close>, a number,
  a string, a single dict) \<open>import_python_annotations\<close> raises nothing: it returns the
  empty list, and it makes no call on the client.
\<close>

theorem import_of_a_non_list:
  assumes "\<forall>xs. v \<noteq> PList xs"
  shows "fst (import_python_annotations env v b) = Inr []
    \<and> remote_calls (trace (snd (import_python_annotations env v b))) = remote_calls (trace b)"
proof (cases v)
  case (PStr s)
  show ?thesis
    by (rule import_without_calls [of _ "map (\<lambda>c. PStr [c]) s"]) (auto simp: PStr)
next
  case (PDict kvs)
  show ?thesis
    by (rule import_without_calls [of _ "map (\<lambda>kv. PStr (fst kv)) kvs"]) (auto simp: PDict)
next
  case (PList xs)
  then show ?thesis using assms by simp
qed (simp_all add: import_python_annotations_def)

text \<open>A single record passed where the list is expected.\<close>

theorem import_of_a_non_list_witness:
  "(\<forall>xs. annotation ''e1'' ''lone note'' \<noteq> PList xs)
   \<and> fst (import_python_annotations demo_env (annotation ''e1'' ''lone note'') demo_bridge)
       = Inr []
   \<and> remote_calls
        (trace (snd (import_python_annotations demo_env (annotation ''e1'' ''lone note'')
           demo_bridge))) = []"
proof -
  have a: "\<forall>xs. annotation ''e1'' ''lone note'' \<noteq> PList xs"
    by (simp add: annotation_def)
  have "remote_calls (trace demo_bridge) = []"
    by (simp add: demo_bridge_eq)
  with import_of_a_non_list [OF a, of demo_env demo_bridge] a show ?thesis
    by simp
qed

text \<open>
  The same single record: the loop runs over its three keys, skips each of them as an
  invalid annotation, and the method returns the empty list. No error is raised.
\<close>

theorem import_of_a_single_object_counterexample:
  "fst (import_python_annotations demo_env (annotation ''e1'' ''lone note'') demo_bridge)
     = Inr []
   \<and> logged (trace (snd (import_python_annotations demo_env (annotation ''e1'' ''lone note'')
        demo_bridge))) =
        [Warning_skipping_annotation (PStr ''entryId''),
         Warning_skipping_annotation (PStr ''content''),
         Warning_skipping_annotation (PStr ''authorName''),
         Info_imported 0]"
  by code_simp

section \<open>Reading the state file never raises\<close>

lemma contains_dict: "(k \<in> fst ` set kvs) = (map_of kvs k \<noteq> None)"
  by (simp add: map_of_eq_None_iff)

lemma load_state_data_plain:
  assumes "map_of kvs ''sync_state'' = None"
  shows "load_state_data env (PDict kvs) b =
     (Inr (), log Info_state_loaded
        (b\<lparr>local_cache := (case map_of kvs ''local_cache'' of None \<Rightarrow> PDict [] | Some c \<Rightarrow> c)\<rparr>))"
  using assms by (simp add: load_state_data_def contains_dict split: option.splits)

lemma load_state_data_full:
  assumes "map_of kvs ''sync_state'' = Some (PDict skvs)"
    and "map_of skvs ''last_sync'' = Some (PStr s)" and "fromisoformat env s = Some t"
  shows "load_state_data env (PDict kvs) b =
     (Inr (), log Info_state_loaded
        (b\<lparr>sync_state :=
             \<lparr>last_sync = t,
              react_version = (case map_of skvs ''react_version'' of None \<Rightarrow> PInt 0 | Some v \<Rightarrow> v),
              python_version = (case map_of skvs ''python_version'' of None \<Rightarrow> PInt 0 | Some v \<Rightarrow> v),
              pending_changes = (case map_of skvs ''pending_changes'' of None \<Rightarrow> PList [] | Some v \<Rightarrow> v),
              conflict_resolution = conflict_resolution (sync_state b)\<rparr>,
           local_cache := (case map_of kvs ''local_cache'' of None \<Rightarrow> PDict [] | Some c \<Rightarrow> c)\<rparr>))"
  using assms
  by (simp add: load_state_data_def load_sync_state_def contains_dict Let_def
      split: option.splits)

lemma load_state_data_refused:
  assumes "\<not> loadable env d"
  shows "\<exists>e. load_state_data env d b = (Inl e, b)"
proof (cases d)
  case (PDict kvs)
  show ?thesis
  proof (cases "map_of kvs ''sync_state''")
    case None
    with assms PDict show ?thesis by simp
  next
    case (Some sd)
    have has: "''sync_state'' \<in> fst ` set kvs"
      using Some by (simp add: contains_dict)
    have "\<exists>e. load_sync_state env (PDict kvs) b = (Inl e, b)"
    proof (cases sd)
      case (PDict skvs)
      then show ?thesis
        using assms \<open>d = PDict kvs\<close> Some
        by (auto simp: load_sync_state_def split: option.splits pyval.splits)
    qed (simp_all add: load_sync_state_def Some)
    then show ?thesis
      using has by (auto simp: load_state_data_def PDict)
  qed
next
  case (PList xs)
  then show ?thesis
    by (auto simp: load_state_data_def load_sync_state_def)
next
  case (PStr s)
  then show ?thesis
    by (auto simp: load_state_data_def load_sync_state_def)
qed (simp_all add: load_state_data_def)


text \<open>
  Claim C8, as the code has it. \<open>_load_shared_state\<close> never raises. With no file it
  does nothing at all: the bridge is as it was and nothing is logged. A file that
  cannot be read or parsed, and a document that is not \<open>loadable\<close>, leave the bridge as
  it was but for one warning with the exception. A JSON object without \<open>sync_state\<close>
  gives the cache (its \<open>local_cache\<close>, or the empty dict) and leaves the sync state;
  one with a \<open>sync_state\<close> object whose \<open>last_sync\<close> is read by \<open>fromisoformat\<close> gives
  \<open>last_sync\<close>, the two versions and the pending changes, whatever their types, the
  defaults \<open>0\<close>, \<open>0\<close> and \<open>[]\<close> for the missing ones, and the cache; it leaves
  \<open>conflict_resolution\<close>. So a bridge constructed on no file, on an unreadable one or on
  a document that is not \<open>loadable\<close> has the default \<open>SyncState\<close> and an empty cache.
\<close>

theorem load_shared_state_never_raises:
  "fst (load_shared_state env b) = Inr ()
   \<and> (shared_state b = Absent \<longrightarrow> snd (load_shared_state env b) = b)
   \<and> (shared_state b = Unreadable e \<longrightarrow>
        snd (load_shared_state env b) = log (Warning_could_not_load e) b)
   \<and> (shared_state b = Document d \<and> \<not> loadable env d \<longrightarrow>
        (\<exists>e. snd (load_shared_state env b) = log (Warning_could_not_load e) b))
   \<and> (shared_state b = Document (PDict kvs) \<and> map_of kvs ''sync_state'' = None \<longrightarrow>
        snd (load_shared_state env b) =
          log Info_state_loaded
            (b\<lparr>local_cache :=
                 (case map_of kvs ''local_cache'' of None \<Rightarrow> PDict [] | Some c \<Rightarrow> c)\<rparr>))
   \<and> (shared_state b = Document (PDict kvs')
        \<and> map_of kvs' ''sync_state'' = Some (PDict skvs)
        \<and> map_of skvs ''last_sync'' = Some (PStr s) \<and> fromisoformat env s = Some t \<longrightarrow>
        snd (load_shared_state env b) =
          log Info_state_loaded
            (b\<lparr>sync_state :=
                 \<lparr>last_sync = t,
                  react_version =
                    (case map_of skvs ''react_version'' of None \<Rightarrow> PInt 0 | Some v \<Rightarrow> v),
                  python_version =
                    (case map_of skvs ''python_version'' of None \<Rightarrow> PInt 0 | Some v \<Rightarrow> v),
                  pending_changes =
                    (case map_of skvs ''pending_changes'' of None \<Rightarrow> PList [] | Some v \<Rightarrow> v),
                  conflict_resolution = conflict_resolution (sync_state b)\<rparr>,
               local_cache :=
                 (case map_of kvs' ''local_cache'' of None \<Rightarrow> PDict [] | Some c \<Rightarrow> c)\<rparr>))
   \<and> (on_disk = Absent \<or> (\<exists>e. on_disk = Unreadable e) \<or> (\<exists>d. on_disk = Document d \<and> \<not> loadable env d) \<longrightarrow>
        fst (new_bridge env auto bidir interval on_disk writable w) = Inr ()
      \<and> sync_state (snd (new_bridge env auto bidir interval on_disk writable w))
          = default_sync_state (Naive (fst (now env w)))
      \<and> local_cache (snd (new_bridge env auto bidir interval on_disk writable w)) = PDict [])"
proof -
  have never: "fst (load_shared_state env b) = Inr ()" for b :: "'a MysticalBridge"
    by (simp add: load_shared_state_def split: state_file.splits prod.splits sum.splits)
  have absent: "snd (load_shared_state env b) = b" if "shared_state b = Absent"
    for b :: "'a MysticalBridge"
    using that by (simp add: load_shared_state_def)
  have unreadable: "snd (load_shared_state env b) = log (Warning_could_not_load e) b"
    if "shared_state b = Unreadable e" for b :: "'a MysticalBridge" and e
    using that by (simp add: load_shared_state_def)
  have refused: "\<exists>e. snd (load_shared_state env b) = log (Warning_could_not_load e) b"
    if "shared_state b = Document d" "\<not> loadable env d" for b :: "'a MysticalBridge" and d
  proof -
    from load_state_data_refused [OF that(2)] obtain e
      where "load_state_data env d b = (Inl e, b)" by blast
    then have "snd (load_shared_state env b) = log (Warning_could_not_load e) b"
      using that(1) by (simp add: load_shared_state_def)
    then show ?thesis ..
  qed
  have plain: "snd (load_shared_state env b) =
          log Info_state_loaded
            (b\<lparr>local_cache :=
                 (case map_of kvs ''local_cache'' of None \<Rightarrow> PDict [] | Some c \<Rightarrow> c)\<rparr>)"
    if "shared_state b = Document (PDict kvs)" "map_of kvs ''sync_state'' = None"
    using that by (simp add: load_shared_state_def load_state_data_plain)
  have full: "snd (load_shared_state env b) =
          log Info_state_loaded
            (b\<lparr>sync_state :=
                 \<lparr>last_sync = t,
                  react_version =
                    (case map_of skvs ''react_version'' of None \<Rightarrow> PInt 0 | Some v \<Rightarrow> v),
                  python_version =
                    (case map_of skvs ''python_version'' of None \<Rightarrow> PInt 0 | Some v \<Rightarrow> v),
                  pending_changes =
                    (case map_of skvs ''pending_changes'' of None \<Rightarrow> PList [] | Some v \<Rightarrow> v),
                  conflict_resolution = conflict_resolution (sync_state b)\<rparr>,
               local_cache :=
                 (case map_of kvs' ''local_cache'' of None \<Rightarrow> PDict [] | Some c \<Rightarrow> c)\<rparr>)"
    if "shared_state b = Document (PDict kvs')" "map_of kvs' ''sync_state'' = Some (PDict skvs)"
      "map_of skvs ''last_sync'' = Some (PStr s)" "fromisoformat env s = Some t"
    using that by (simp add: load_shared_state_def load_state_data_full)
  define b0 where "b0 = \<lparr>sync_state = default_sync_state (Naive (fst (now env w))),
           message_queue = [], event_handlers = [], local_cache = PDict [],
           auto_sync = auto, bidirectional = bidir, sync_interval = interval,
           shared_state = on_disk, file_writable = writable, trace = [],
           world = snd (now env w)\<rparr>"
  have nb: "new_bridge env auto bidir interval on_disk writable w = load_shared_state env b0"
    by (simp add: new_bridge_def b0_def split: prod.splits)
  have b0: "shared_state b0 = on_disk" "sync_state b0 = default_sync_state (Naive (fst (now env w)))"
    "local_cache b0 = PDict []"
    by (simp_all add: b0_def)
  have fresh: "fst (new_bridge env auto bidir interval on_disk writable w) = Inr ()
      \<and> sync_state (snd (new_bridge env auto bidir interval on_disk writable w))
          = default_sync_state (Naive (fst (now env w)))
      \<and> local_cache (snd (new_bridge env auto bidir interval on_disk writable w)) = PDict []"
    if "on_disk = Absent \<or> (\<exists>e. on_disk = Unreadable e) \<or> (\<exists>d. on_disk = Document d \<and> \<not> loadable env d)"
  proof -
    from that consider "on_disk = Absent" | e where "on_disk = Unreadable e"
      | d where "on_disk = Document d" "\<not> loadable env d" by blast
    then have "snd (load_shared_state env b0) = b0
       \<or> (\<exists>e. snd (load_shared_state env b0) = log (Warning_could_not_load e) b0)"
    proof cases
      case 1
      then show ?thesis using absent [of b0] b0(1) by simp
    next
      case 2
      then show ?thesis using unreadable [of b0 e] b0(1) by blast
    next
      case 3
      then show ?thesis using refused [of b0 d] b0(1) by blast
    qed
    then show ?thesis
      unfolding nb using never [of b0] b0(2,3) by auto
  qed
  show ?thesis
    using never [of b] absent [of b] unreadable [of b e] refused [of b d] plain full fresh
    by blast
qed


lemma demo_documents:
  "fromisoformat demo_env ''1970-01-01T00:00:00.000003'' = Some (Naive 3)"
  "loadable demo_env truncated_document = False"
  "conflict_resolution (sync_state demo_bridge) = ''manual''"
  by code_simp+

text \<open>The five kinds of file, read by the bridge of the examples: none, one that cannot
  be parsed, a document whose \<open>sync_state\<close> has no \<open>last_sync\<close>, a document with a
  cache only, and a document whose \<open>python_version\<close> is a string and whose cache is a
  list.\<close>

theorem load_shared_state_never_raises_witness:
  "snd (load_shared_state demo_env demo_bridge) = demo_bridge
   \<and> snd (load_shared_state demo_env (demo_bridge\<lparr>shared_state := Unreadable JSONDecodeError\<rparr>))
       = log (Warning_could_not_load JSONDecodeError)
           (demo_bridge\<lparr>shared_state := Unreadable JSONDecodeError\<rparr>)
   \<and> (\<exists>e. snd (load_shared_state demo_env
                (demo_bridge\<lparr>shared_state := Document truncated_document\<rparr>))
       = log (Warning_could_not_load e)
           (demo_bridge\<lparr>shared_state := Document truncated_document\<rparr>))
   \<and> snd (load_shared_state demo_env
          (demo_bridge\<lparr>shared_state := Document (PDict [(''local_cache'', PList [PInt 1])])\<rparr>))
       = log Info_state_loaded
           (demo_bridge\<lparr>shared_state := Document (PDict [(''local_cache'', PList [PInt 1])]),
              local_cache := PList [PInt 1]\<rparr>)
   \<and> snd (load_shared_state demo_env (demo_bridge\<lparr>shared_state := Document typeless_document\<rparr>))
       = log Info_state_loaded
           (demo_bridge\<lparr>shared_state := Document typeless_document,
              sync_state := \<lparr>last_sync = Naive 3, react_version = PInt 0,
                 python_version = PStr ''seven'', pending_changes = PList [],
                 conflict_resolution = ''manual''\<rparr>,
              local_cache := PList [PInt 1]\<rparr>)
   \<and> sync_state (snd (new_bridge demo_env True True 5 (Document truncated_document) True 0))
       = default_sync_state (Naive 0)
   \<and> local_cache (snd (new_bridge demo_env True True 5 (Document truncated_document) True 0))
       = PDict []"
proof -
  have absent: "snd (load_shared_state demo_env demo_bridge) = demo_bridge"
    using load_shared_state_never_raises [where env = demo_env and b = demo_bridge]
    by (simp add: demo_bridge_eq)
  have unreadable: "snd (load_shared_state demo_env
        (demo_bridge\<lparr>shared_state := Unreadable JSONDecodeError\<rparr>))
       = log (Warning_could_not_load JSONDecodeError)
           (demo_bridge\<lparr>shared_state := Unreadable JSONDecodeError\<rparr>)"
    using load_shared_state_never_raises [where env = demo_env and e = JSONDecodeError
        and b = "demo_bridge\<lparr>shared_state := Unreadable JSONDecodeError\<rparr>"]
    by simp
  have refused: "\<exists>e. snd (load_shared_state demo_env
                (demo_bridge\<lparr>shared_state := Document truncated_document\<rparr>))
       = log (Warning_could_not_load e)
           (demo_bridge\<lparr>shared_state := Document truncated_document\<rparr>)"
    using load_shared_state_never_raises [where env = demo_env and d = truncated_document
        and b = "demo_bridge\<lparr>shared_state := Document truncated_document\<rparr>"]
      demo_documents(2)
    by simp
  have plain: "snd (load_shared_state demo_env
          (demo_bridge\<lparr>shared_state := Document (PDict [(''local_cache'', PList [PInt 1])])\<rparr>))
       = log Info_state_loaded
           (demo_bridge\<lparr>shared_state := Document (PDict [(''local_cache'', PList [PInt 1])]),
              local_cache := PList [PInt 1]\<rparr>)"
    using load_shared_state_never_raises [where env = demo_env
        and kvs = "[(''local_cache'', PList [PInt 1])]"
        and b = "demo_bridge\<lparr>shared_state := Document (PDict [(''local_cache'', PList [PInt 1])])\<rparr>"]
    by simp
  have full: "snd (load_shared_state demo_env
        (demo_bridge\<lparr>shared_state := Document typeless_document\<rparr>))
       = log Info_state_loaded
           (demo_bridge\<lparr>shared_state := Document typeless_document,
              sync_state := \<lparr>last_sync = Naive 3, react_version = PInt 0,
                 python_version = PStr ''seven'', pending_changes = PList [],
                 conflict_resolution = ''manual''\<rparr>,
              local_cache := PList [PInt 1]\<rparr>)"
    using load_shared_state_never_raises [where env = demo_env
        and kvs' = "[(''sync_state'', PDict [(''last_sync'', PStr ''1970-01-01T00:00:00.000003''),
                                    (''python_version'', PStr ''seven'')]),
            (''local_cache'', PList [PInt 1])]"
        and skvs = "[(''last_sync'', PStr ''1970-01-01T00:00:00.000003''),
                                    (''python_version'', PStr ''seven'')]"
        and s = "''1970-01-01T00:00:00.000003''" and t = "Naive 3"
        and b = "demo_bridge\<lparr>shared_state := Document typeless_document\<rparr>"]
      demo_documents(1,3)
    by (simp add: typeless_document_def)
  have fresh: "sync_state (snd (new_bridge demo_env True True 5 (Document truncated_document) True 0))
       = default_sync_state (Naive 0)
   \<and> local_cache (snd (new_bridge demo_env True True 5 (Document truncated_document) True 0))
       = PDict []"
    using load_shared_state_never_raises [where env = demo_env
        and on_disk = "Document truncated_document" and auto = True and bidir = True
        and interval = 5 and writable = True and w = 0]
      demo_documents(2)
    by (simp add: demo_env_def)
  show ?thesis
    using absent unreadable refused plain full fresh by (simp only: simp_thms)
qed

text \<open>
  With no file the constructor logs nothing at all. And a document whose
  \<open>python_version\<close> is a string and whose cache is a list is taken as it is: no problem
  is logged, the version is the string and the cache is the list.
\<close>

theorem load_of_a_missing_file_counterexample:
  "shared_state demo_bridge = Absent \<and> trace demo_bridge = []
   \<and> logged (trace (snd (new_bridge demo_env True True 5 (Document typeless_document) True 0)))
       = [Info_state_loaded]
   \<and> python_version (sync_state
        (snd (new_bridge demo_env True True 5 (Document typeless_document) True 0)))
       = PStr ''seven''
   \<and> local_cache (snd (new_bridge demo_env True True 5 (Document typeless_document) True 0))
       = PList [PInt 1]"
  by code_simp

section \<open>Saving and loading again\<close>

lemma save_shared_state_document:
  assumes "file_writable b"
  shows "shared_state (snd (save_shared_state env b)) =
     Document (PDict
       [(''sync_state'', PDict
           [(''last_sync'', PStr (isoformat env (last_sync (sync_state b)))),
            (''react_version'', json_dump_load env (react_version (sync_state b))),
            (''python_version'', json_dump_load env (python_version (sync_state b))),
            (''pending_changes'', json_dump_load env (pending_changes (sync_state b))),
            (''conflict_resolution'', PStr (conflict_resolution (sync_state b)))]),
        (''local_cache'', json_dump_load env (local_cache b)),
        (''metadata'', PDict
           [(''bridge_version'', PStr ''1.0''),
            (''last_updated'', PStr (isoformat env (Naive (fst (now env (world b)))))),
            (''auto_sync'', PBool (auto_sync b)),
            (''bidirectional'', PBool (bidirectional b))])])"
  using assms by (simp add: save_shared_state_def datetime_now_eq Let_def)

text \<open>
  Claim C5, as the code has it. A bridge \<open>b\<close> saves its state and a bridge \<open>fresh\<close>
  loads the file that was written. \<open>fresh\<close> then has the \<open>last_sync\<close> that
  \<open>fromisoformat\<close> reads from what \<open>isoformat\<close> wrote, the two versions, the pending
  changes and the cache of \<open>b\<close> as JSON gives them back, and its own
  \<open>conflict_resolution\<close>: the file holds the one of \<open>b\<close>, and the loader does not read
  it.
\<close>

theorem save_then_load_keeps_all_but_conflict_resolution:
  assumes "file_writable b"
    and "fromisoformat env (isoformat env (last_sync (sync_state b))) = Some t"
    and "shared_state fresh = shared_state (snd (save_shared_state env b))"
  shows "load_shared_state env fresh =
     (Inr (), log Info_state_loaded
        (fresh\<lparr>sync_state :=
             \<lparr>last_sync = t,
              react_version = json_dump_load env (react_version (sync_state b)),
              python_version = json_dump_load env (python_version (sync_state b)),
              pending_changes = json_dump_load env (pending_changes (sync_state b)),
              conflict_resolution = conflict_resolution (sync_state fresh)\<rparr>,
           local_cache := json_dump_load env (local_cache b)\<rparr>))"
proof -
  define skvs where "skvs =
           [(''last_sync'', PStr (isoformat env (last_sync (sync_state b)))),
            (''react_version'', json_dump_load env (react_version (sync_state b))),
            (''python_version'', json_dump_load env (python_version (sync_state b))),
            (''pending_changes'', json_dump_load env (pending_changes (sync_state b))),
            (''conflict_resolution'', PStr (conflict_resolution (sync_state b)))]"
  define kvs where "kvs =
       [(''sync_state'', PDict skvs),
        (''local_cache'', json_dump_load env (local_cache b)),
        (''metadata'', PDict
           [(''bridge_version'', PStr ''1.0''),
            (''last_updated'', PStr (isoformat env (Naive (fst (now env (world b)))))),
            (''auto_sync'', PBool (auto_sync b)),
            (''bidirectional'', PBool (bidirectional b))])]"
  have doc: "shared_state fresh = Document (PDict kvs)"
    unfolding assms(3) save_shared_state_document [OF assms(1), of env] kvs_def skvs_def ..
  have look: "map_of kvs ''sync_state'' = Some (PDict skvs)"
    "map_of kvs ''local_cache'' = Some (json_dump_load env (local_cache b))"
    "map_of skvs ''last_sync'' = Some (PStr (isoformat env (last_sync (sync_state b))))"
    "map_of skvs ''react_version'' = Some (json_dump_load env (react_version (sync_state b)))"
    "map_of skvs ''python_version'' = Some (json_dump_load env (python_version (sync_state b)))"
    "map_of skvs ''pending_changes'' = Some (json_dump_load env (pending_changes (sync_state b)))"
    by (simp_all add: kvs_def skvs_def)
  show ?thesis
    unfolding load_shared_state_def doc state_file.case
      load_state_data_full [OF look(1) look(3) assms(2)]
    by (simp add: look)
qed


lemma react_wins_facts:
  "file_writable react_wins_bridge"
  "fromisoformat demo_env (isoformat demo_env (last_sync (sync_state react_wins_bridge)))
     = Some (Naive 3)"
  "sync_state react_wins_bridge =
     \<lparr>last_sync = Naive 3, react_version = PInt 2, python_version = PInt 7,
      pending_changes = PList [PStr ''e1''], conflict_resolution = ''react_wins''\<rparr>"
  "local_cache react_wins_bridge = PDict [(''k'', PInt 1)]"
  by code_simp+

text \<open>
  A bridge whose conflicts are resolved by \<open>react_wins\<close> saves its state; a bridge
  constructed on the file it wrote has the same instant, versions, pending changes and
  cache, and resolves conflicts by \<open>manual\<close>.
\<close>

theorem save_then_load_keeps_all_but_conflict_resolution_witness:
  "conflict_resolution (sync_state react_wins_bridge) = ''react_wins''
   \<and> sync_state (snd (new_bridge demo_env True True 5
        (shared_state (snd (save_shared_state demo_env react_wins_bridge))) True 0))
       = (sync_state react_wins_bridge)\<lparr>conflict_resolution := ''manual''\<rparr>
   \<and> local_cache (snd (new_bridge demo_env True True 5
        (shared_state (snd (save_shared_state demo_env react_wins_bridge))) True 0))
       = local_cache react_wins_bridge"
proof -
  define fresh :: "int MysticalBridge" where "fresh =
     \<lparr>sync_state = default_sync_state (Naive 0), message_queue = [],
      event_handlers = [], local_cache = PDict [],
      auto_sync = True, bidirectional = True, sync_interval = 5,
      shared_state = shared_state (snd (save_shared_state demo_env react_wins_bridge)),
      file_writable = True, trace = [], world = 1\<rparr>"
  have nb: "new_bridge demo_env True True 5
        (shared_state (snd (save_shared_state demo_env react_wins_bridge))) True 0
      = load_shared_state demo_env fresh"
    by (simp add: new_bridge_def fresh_def demo_env_def)
  have fresh: "shared_state fresh = shared_state (snd (save_shared_state demo_env react_wins_bridge))"
    "conflict_resolution (sync_state fresh) = ''manual''"
    by (simp_all add: fresh_def default_sync_state_def)
  from save_then_load_keeps_all_but_conflict_resolution
    [OF react_wins_facts(1) react_wins_facts(2) fresh(1)]
  show ?thesis
    unfolding nb by (simp add: react_wins_facts(3,4) fresh(2))
qed

end
